theory Spec2Isabelle
  imports Complex_Main "HOL-Library.AList"
begin

section \<open>JavaScript values used by the inspector\<close>

text \<open>
  The program is \<^verbatim>\<open>src/popup.js\<close>, the class \<^verbatim>\<open>StorageInspector\<close>. Its methods are
  embedded as HOL functions over an explicit state. Built-ins of the JavaScript runtime
  and of the browser (\<^verbatim>\<open>JSON\<close>, \<^verbatim>\<open>Date\<close>, \<^verbatim>\<open>chrome.*\<close>) are not code of the
  repository: they enter either as parameters (the record \<open>env\<close> below) or as small
  models that are named as such.

  A JavaScript number is a double. The code tests its truthiness and hands it on, so a
  finite double is represented by the real number it denotes (\<open>+0\<close> and \<open>-0\<close> are
  both \<open>Num 0\<close>); \<open>NaN\<close> and the two infinities are values of their own.

  A string is a list of characters with codes below 256; text outside that range is not
  represented.
\<close>

datatype number = NaN | Num real | PosInfinity | NegInfinity

fun truthy_number :: "number \<Rightarrow> bool" where
  "truthy_number NaN = False"
| "truthy_number (Num x) = (x \<noteq> 0)"
| "truthy_number PosInfinity = True"
| "truthy_number NegInfinity = True"

text \<open>
  The operator \<^verbatim>\<open>a || b\<close> on an optional string and on an optional boolean:
  \<^verbatim>\<open>undefined\<close> (\<open>None\<close>), the empty string and \<^verbatim>\<open>false\<close> are falsy.
\<close>

definition or_string :: "string option \<Rightarrow> string \<Rightarrow> string" where
  "or_string a b = (case a of None \<Rightarrow> b | Some s \<Rightarrow> if s = [] then b else s)"

definition or_bool :: "bool option \<Rightarrow> bool \<Rightarrow> bool" where
  "or_bool a b = (case a of None \<Rightarrow> b | Some x \<Rightarrow> if x then True else b)"

text \<open>\<^verbatim>\<open>s.startsWith('.')\<close> and \<^verbatim>\<open>s.substring(1)\<close>.\<close>

definition startsWith_dot :: "string \<Rightarrow> bool" where
  "startsWith_dot s = (case s of [] \<Rightarrow> False | c # _ \<Rightarrow> c = CHR ''.'')"

definition substring1 :: "string \<Rightarrow> string" where
  "substring1 s = drop 1 s"

section \<open>Cookies\<close>

text \<open>
  \<open>location\<close> is the part of \<^verbatim>\<open>this.currentUrl\<close> (a \<^verbatim>\<open>URL\<close>) that the code reads.
  \<open>cookie_data\<close> is the argument \<^verbatim>\<open>data\<close> of \<^verbatim>\<open>setCookie\<close>: the object that
  \<^verbatim>\<open>saveItem\<close> builds from the form, or an element of the \<^verbatim>\<open>cookies\<close> array of an
  import file, in which every attribute but name and value may be missing.
  \<open>cookie_details\<close> is the object \<^verbatim>\<open>cookie\<close> handed to \<^verbatim>\<open>chrome.cookies.set\<close>;
  an attribute that the code does not assign is \<open>None\<close>.
\<close>

record location =
  origin :: string
  hostname :: string
  protocol :: string

record cookie_data =
  data_name :: string
  data_value :: string
  data_domain :: "string option"
  data_path :: "string option"
  data_secure :: "bool option"
  data_httpOnly :: "bool option"
  data_sameSite :: "string option"
  data_expirationDate :: "number option"

record cookie_details =
  set_url :: string
  set_name :: string
  set_value :: string
  set_path :: string
  set_secure :: bool
  set_httpOnly :: bool
  set_sameSite :: string
  set_domain :: "string option"
  set_expirationDate :: "number option"

text \<open>
  The object literal of \<^verbatim>\<open>setCookie\<close> (lines 361-369), then the two conditional
  assignments (lines 371-383), in the order of the source.
\<close>

definition cookie_literal :: "location \<Rightarrow> cookie_data \<Rightarrow> cookie_details" where
  "cookie_literal url d =
     \<lparr> set_url = origin url,
       set_name = data_name d,
       set_value = data_value d,
       set_path = or_string (data_path d) ''/'',
       set_secure = or_bool (data_secure d) False,
       set_httpOnly = or_bool (data_httpOnly d) False,
       set_sameSite = or_string (data_sameSite d) ''lax'',
       set_domain = None,
       set_expirationDate = None \<rparr>"

definition fix_domain :: "location \<Rightarrow> cookie_data \<Rightarrow> cookie_details \<Rightarrow> cookie_details" where
  "fix_domain url d cookie =
     (case data_domain d of
        None \<Rightarrow> cookie
      | Some supplied \<Rightarrow>
          if supplied = [] then cookie
          else
            let dm = (if startsWith_dot supplied then substring1 supplied else supplied)
            in if dm \<noteq> hostname url then cookie\<lparr>set_domain := Some dm\<rparr> else cookie)"

definition fix_expiration :: "cookie_data \<Rightarrow> cookie_details \<Rightarrow> cookie_details" where
  "fix_expiration d cookie =
     (case data_expirationDate d of
        None \<Rightarrow> cookie
      | Some e \<Rightarrow> if truthy_number e then cookie\<lparr>set_expirationDate := Some e\<rparr> else cookie)"

definition cookie_request :: "location \<Rightarrow> cookie_data \<Rightarrow> cookie_details" where
  "cookie_request url d = fix_expiration d (fix_domain url d (cookie_literal url d))"

section \<open>Key-value stores\<close>

text \<open>
  A plain JavaScript object (\<^verbatim>\<open>this.data.localStorage\<close>, \<^verbatim>\<open>this.data.sessionStorage\<close>,
  the object an injected script builds, an object that \<^verbatim>\<open>JSON.parse\<close> returns) is the
  list of its own properties in the order in which the engine enumerates them: the keys
  that are array indices first, in ascending numeric order, then the other keys in the
  order in which they were created. \<^verbatim>\<open>Object.keys\<close> is \<open>map fst\<close> and
  \<^verbatim>\<open>Object.entries\<close> is the list itself.

  An array index is a canonical decimal numeral below \<open>2^32 - 1\<close>.
\<close>

definition is_digit :: "char \<Rightarrow> bool" where
  "is_digit c = (c \<in> set ''0123456789'')"

definition digit_value :: "char \<Rightarrow> nat" where
  "digit_value c = of_char c - 48"

definition number_of_digits :: "string \<Rightarrow> nat" where
  "number_of_digits ds = foldl (\<lambda>n c. 10 * n + digit_value c) 0 ds"

definition array_index :: "string \<Rightarrow> nat option" where
  "array_index k =
     (if k \<noteq> [] \<and> list_all is_digit k \<and> (length k = 1 \<or> hd k \<noteq> CHR ''0'')
         \<and> number_of_digits k < 4294967295
      then Some (number_of_digits k) else None)"

text \<open>
  Creating or overwriting an own property, as \<^verbatim>\<open>JSON.parse\<close> does for every member it
  reads: an existing property keeps its place; a new array index goes among the array
  indices, any other new key goes last.
\<close>

fun insert_index :: "nat \<Rightarrow> string \<Rightarrow> 'a \<Rightarrow> (string \<times> 'a) list \<Rightarrow> (string \<times> 'a) list" where
  "insert_index i k v [] = [(k, v)]"
| "insert_index i k v ((k', v') # rest) =
     (case array_index k' of
        None \<Rightarrow> (k, v) # (k', v') # rest
      | Some j \<Rightarrow>
          if j < i then (k', v') # insert_index i k v rest else (k, v) # (k', v') # rest)"

definition define_property :: "string \<Rightarrow> 'a \<Rightarrow> (string \<times> 'a) list \<Rightarrow> (string \<times> 'a) list" where
  "define_property k v obj =
     (if k \<in> fst ` set obj then AList.update k v obj
      else
        (case array_index k of
           None \<Rightarrow> obj @ [(k, v)]
         | Some i \<Rightarrow> insert_index i k v obj))"

text \<open>
  The assignment \<^verbatim>\<open>obj[k] = v\<close> of a string \<open>v\<close> to an object that was created as
  \<^verbatim>\<open>{}\<close> and filled by such assignments only. The key \<^verbatim>\<open>__proto__\<close> is not an own
  property of such an object: the assignment reaches the accessor inherited from
  \<^verbatim>\<open>Object.prototype\<close>, whose setter ignores a value that is neither an object nor
  \<^verbatim>\<open>null\<close>, and the object is left as it was. Every other key is created or
  overwritten. \<^verbatim>\<open>delete obj[k]\<close> removes the own property \<open>k\<close>, if there is one.
\<close>

type_synonym js_object = "(string \<times> string) list"

definition obj_set :: "string \<Rightarrow> string \<Rightarrow> js_object \<Rightarrow> js_object" where
  "obj_set k v obj = (if k = ''__proto__'' then obj else define_property k v obj)"

definition obj_delete :: "string \<Rightarrow> js_object \<Rightarrow> js_object" where
  "obj_delete k obj = AList.delete k obj"

definition Object_keys :: "js_object \<Rightarrow> string list" where
  "Object_keys obj = map fst obj"

text \<open>
  \<open>storage_*\<close> is the model of the Web Storage object \<^verbatim>\<open>window[storageType]\<close> of the
  inspected page, with the methods the injected scripts call. It is not a plain object:
  \<^verbatim>\<open>setItem\<close> stores under every key, \<^verbatim>\<open>__proto__\<close> included, and the order of
  \<^verbatim>\<open>key(i)\<close> is the store's own.
\<close>

datatype storage_kind = LocalStorage | SessionStorage

definition storage_length :: "js_object \<Rightarrow> nat" where
  "storage_length storage = length storage"

definition storage_key :: "js_object \<Rightarrow> nat \<Rightarrow> string option" where
  "storage_key storage i = (if i < length storage then Some (fst (storage ! i)) else None)"

definition storage_getItem :: "js_object \<Rightarrow> string \<Rightarrow> string option" where
  "storage_getItem storage k = map_of storage k"

definition storage_setItem :: "string \<Rightarrow> string \<Rightarrow> js_object \<Rightarrow> js_object" where
  "storage_setItem k v storage = AList.update k v storage"

definition storage_removeItem :: "string \<Rightarrow> js_object \<Rightarrow> js_object" where
  "storage_removeItem k storage = AList.delete k storage"

text \<open>
  The function injected by \<^verbatim>\<open>loadWebStorage\<close> (lines 280-288): the loop
  \<^verbatim>\<open>for (let i = 0; i < storage.length; i++)\<close> with body
  \<^verbatim>\<open>data[storage.key(i)] = storage.getItem(storage.key(i))\<close>, starting from \<^verbatim>\<open>{}\<close>.
  Inside the loop both reads succeed; the \<open>None\<close> branches are never taken.
\<close>

definition read_step :: "js_object \<Rightarrow> js_object \<Rightarrow> nat \<Rightarrow> js_object" where
  "read_step storage data i =
     (case storage_key storage i of
        None \<Rightarrow> data
      | Some key \<Rightarrow>
          (case storage_getItem storage key of
             None \<Rightarrow> data
           | Some v \<Rightarrow> obj_set key v data))"

definition read_storage :: "js_object \<Rightarrow> js_object" where
  "read_storage storage = foldl (read_step storage) [] [0..<storage_length storage]"

section \<open>JSON values\<close>

text \<open>
  The result of \<^verbatim>\<open>JSON.parse\<close>, and the operator \<^verbatim>\<open>typeof\<close> on it (an array and
  \<^verbatim>\<open>null\<close> both have type \<^verbatim>\<open>'object'\<close>).
\<close>

datatype json =
    JNull
  | JBool bool
  | JNumber number
  | JString string
  | JArray "json list"
  | JObject "(string \<times> json) list"

fun typeof :: "json \<Rightarrow> string" where
  "typeof JNull = ''object''"
| "typeof (JBool b) = ''boolean''"
| "typeof (JNumber n) = ''number''"
| "typeof (JString s) = ''string''"
| "typeof (JArray xs) = ''object''"
| "typeof (JObject kvs) = ''object''"

section \<open>The browser\<close>

text \<open>
  \<open>cookie\<close> is a \<^verbatim>\<open>chrome.cookies.Cookie\<close>, an element of \<^verbatim>\<open>this.data.cookies\<close>.
  \<open>import_payload\<close> is the object an import file of the documented format parses to:
  \<^verbatim>\<open>localStorage\<close> and \<^verbatim>\<open>sessionStorage\<close> are objects with string values,
  \<^verbatim>\<open>cookies\<close> is an array of cookie objects, and each of the three may be missing.
\<close>

record cookie =
  cookie_name :: string
  cookie_value :: string
  cookie_domain :: string
  cookie_path :: string
  cookie_secure :: bool
  cookie_httpOnly :: bool
  cookie_sameSite :: string
  cookie_expirationDate :: "number option"

record import_payload =
  import_localStorage :: "js_object option"
  import_sessionStorage :: "js_object option"
  import_cookies :: "cookie_data list option"

text \<open>
  Every request the inspector sends to the browser, with its arguments:
  the three uses of \<^verbatim>\<open>chrome.scripting.executeScript\<close> (read all entries, \<^verbatim>\<open>setItem\<close>,
  \<^verbatim>\<open>removeItem\<close>) and \<^verbatim>\<open>chrome.cookies.getAll\<close>, \<^verbatim>\<open>set\<close> and \<^verbatim>\<open>remove\<close>.
\<close>

datatype call =
    ReadItems storage_kind
  | SetItem storage_kind string string
  | RemoveItem storage_kind string
  | CookiesGetAll string
  | CookiesSet cookie_details
  | CookiesRemove string string

text \<open>
  What the code takes from its platform, as parameters. \<open>rejects n\<close> says whether the
  promise of the \<open>n\<close>-th request (counted from 0 over the whole run) rejects, so every
  pattern of failures is an \<open>env\<close>. The cookie store's own behaviour, \<^verbatim>\<open>JSON.parse\<close>
  (\<open>None\<close> when it throws), \<^verbatim>\<open>JSON.stringify\<close> and \<^verbatim>\<open>new Date(s).getTime()\<close> are
  functions of the platform. \<open>JSON_parse_import\<close> is \<^verbatim>\<open>JSON.parse\<close> on the text of an
  import file, read at the type \<open>import_payload\<close>.
\<close>

record env =
  rejects :: "nat \<Rightarrow> bool"
  cookies_getAll :: "string \<Rightarrow> cookie list \<Rightarrow> cookie list"
  cookies_set :: "cookie_details \<Rightarrow> cookie list \<Rightarrow> cookie list"
  cookies_remove :: "string \<Rightarrow> string \<Rightarrow> cookie list \<Rightarrow> cookie list"
  JSON_parse :: "string \<Rightarrow> json option"
  JSON_stringify :: "json \<Rightarrow> string"
  JSON_parse_import :: "string \<Rightarrow> import_payload option"
  Date_getTime :: "string \<Rightarrow> number"

section \<open>The inspector and the stores it mirrors\<close>

text \<open>
  The first five fields are fields of the \<^verbatim>\<open>StorageInspector\<close> object
  (\<open>data_storage\<close> and \<open>data_cookies\<close> are \<^verbatim>\<open>this.data\<close>, the mirror). \<open>page\<close> and
  \<open>jar\<close> are the stores of the browser: the two Web Storage objects of the inspected
  page and the cookie store. \<open>trace\<close> lists the requests sent so far, each with
  \<open>True\<close> when its promise was fulfilled and \<open>False\<close> when it was rejected.
\<close>

datatype tab = Storage storage_kind | Cookies

record state =
  currentTab :: tab
  currentUrl :: location
  data_storage :: "storage_kind \<Rightarrow> js_object"
  data_cookies :: "cookie list"
  editingItem :: "string option"
  page :: "storage_kind \<Rightarrow> js_object"
  jar :: "cookie list"
  trace :: "(call \<times> bool) list"

text \<open>
  Sending a request: it is recorded, and the platform decides whether its promise is
  fulfilled or rejected. Every request settles; a rejected request changes no store.
\<close>

definition request :: "env \<Rightarrow> call \<Rightarrow> state \<Rightarrow> bool \<times> state" where
  "request e c s =
     (let ok = \<not> rejects e (length (trace s))
      in (ok, s\<lparr>trace := trace s @ [(c, ok)]\<rparr>))"

subsection \<open>Loading\<close>

text \<open>
  \<^verbatim>\<open>loadWebStorage\<close> (lines 276-299) and \<^verbatim>\<open>loadCookies\<close> (lines 301-311). The
  \<^verbatim>\<open>catch\<close> branch is the rejected request. A fulfilled request yields the object
  that the injected script built, or the array of cookies, which are truthy: the
  fallbacks \<^verbatim>\<open>|| {}\<close> and \<^verbatim>\<open>|| []\<close> are not taken. \<^verbatim>\<open>updateCount\<close> writes to
  the document only and is left out.
\<close>

definition loadWebStorage :: "env \<Rightarrow> storage_kind \<Rightarrow> state \<Rightarrow> state" where
  "loadWebStorage e type s =
     (case request e (ReadItems type) s of
        (ok, s1) \<Rightarrow>
          if ok then s1\<lparr>data_storage := (data_storage s1)(type := read_storage (page s1 type))\<rparr>
          else s1\<lparr>data_storage := (data_storage s1)(type := [])\<rparr>)"

definition loadCookies :: "env \<Rightarrow> state \<Rightarrow> state" where
  "loadCookies e s =
     (case request e (CookiesGetAll (origin (currentUrl s))) s of
        (ok, s1) \<Rightarrow>
          if ok then s1\<lparr>data_cookies := cookies_getAll e (origin (currentUrl s1)) (jar s1)\<rparr>
          else s1\<lparr>data_cookies := []\<rparr>)"

text \<open>
  \<^verbatim>\<open>loadAllData\<close> (lines 267-274) starts the three loads in this order and awaits them
  together. Each load sends one request and, when that settles, assigns its own
  collection only; so the order in which the three settle does not change the result,
  and the loads are composed in the order in which they are started.
\<close>

definition loadAllData :: "env \<Rightarrow> state \<Rightarrow> state" where
  "loadAllData e s =
     loadCookies e (loadWebStorage e SessionStorage (loadWebStorage e LocalStorage s))"

subsection \<open>Single-item operations\<close>

text \<open>
  \<^verbatim>\<open>setWebStorageItem\<close> (lines 325-340) and \<^verbatim>\<open>removeWebStorageItem\<close> (lines 342-357):
  the injected script changes the page's store; only after the \<^verbatim>\<open>await\<close> returns is
  the mirror changed, and a rejection goes to \<^verbatim>\<open>catch\<close>, which returns \<^verbatim>\<open>false\<close>.
\<close>

definition setWebStorageItem ::
  "env \<Rightarrow> storage_kind \<Rightarrow> string \<Rightarrow> string \<Rightarrow> state \<Rightarrow> bool \<times> state" where
  "setWebStorageItem e type key v s =
     (case request e (SetItem type key v) s of
        (ok, s1) \<Rightarrow>
          if ok then
            let s2 = s1\<lparr>page := (page s1)(type := storage_setItem key v (page s1 type))\<rparr>
            in (True,
                s2\<lparr>data_storage := (data_storage s2)(type := obj_set key v (data_storage s2 type))\<rparr>)
          else (False, s1))"

definition removeWebStorageItem ::
  "env \<Rightarrow> storage_kind \<Rightarrow> string \<Rightarrow> state \<Rightarrow> bool \<times> state" where
  "removeWebStorageItem e type key s =
     (case request e (RemoveItem type key) s of
        (ok, s1) \<Rightarrow>
          if ok then
            let s2 = s1\<lparr>page := (page s1)(type := storage_removeItem key (page s1 type))\<rparr>
            in (True,
                s2\<lparr>data_storage := (data_storage s2)(type := obj_delete key (data_storage s2 type))\<rparr>)
          else (False, s1))"

text \<open>
  \<^verbatim>\<open>setCookie\<close> (lines 359-392) and \<^verbatim>\<open>removeCookie\<close> (lines 394-406): after a
  fulfilled request the cookie collection is loaded again.
\<close>

definition setCookie :: "env \<Rightarrow> cookie_data \<Rightarrow> state \<Rightarrow> bool \<times> state" where
  "setCookie e d s =
     (let cookie = cookie_request (currentUrl s) d in
      case request e (CookiesSet cookie) s of
        (ok, s1) \<Rightarrow>
          if ok then (True, loadCookies e (s1\<lparr>jar := cookies_set e cookie (jar s1)\<rparr>))
          else (False, s1))"

definition removeCookie :: "env \<Rightarrow> string \<Rightarrow> state \<Rightarrow> bool \<times> state" where
  "removeCookie e name s =
     (case request e (CookiesRemove (origin (currentUrl s)) name) s of
        (ok, s1) \<Rightarrow>
          if ok then
            (True, loadCookies e (s1\<lparr>jar := cookies_remove e (origin (currentUrl s1)) name (jar s1)\<rparr>))
          else (False, s1))"

subsection \<open>Saving an edited item\<close>

text \<open>
  \<^verbatim>\<open>isJson\<close> (lines 1078-1086). Its argument is the text of an input field or a stored
  value, a string, so the test \<^verbatim>\<open>typeof str !== 'string'\<close> is always false here.
\<close>

definition isJson :: "env \<Rightarrow> string \<Rightarrow> bool" where
  "isJson e str =
     (case JSON_parse e str of
        None \<Rightarrow> False
      | Some result \<Rightarrow> typeof result = ''object'' \<and> result \<noteq> JNull)"

text \<open>
  The block "Minify JSON if valid" of \<^verbatim>\<open>saveItem\<close> (lines 816-821); the empty
  \<^verbatim>\<open>catch\<close> keeps the value when \<^verbatim>\<open>JSON.parse\<close> throws.
\<close>

definition minify :: "env \<Rightarrow> string \<Rightarrow> string" where
  "minify e v =
     (if isJson e v then
        (case JSON_parse e v of None \<Rightarrow> v | Some parsed \<Rightarrow> JSON_stringify e parsed)
      else v)"

text \<open>
  \<^verbatim>\<open>String.prototype.trim\<close>. Of the white space and line terminators of ECMAScript,
  those with a code below 256 are space, tab, line feed, vertical tab, form feed,
  carriage return and the no-break space.
\<close>

definition is_space :: "char \<Rightarrow> bool" where
  "is_space c =
     (c = CHR '' '' \<or> c = CHR 0x09 \<or> c = CHR 0x0A \<or> c = CHR 0x0B \<or> c = CHR 0x0C
      \<or> c = CHR 0x0D \<or> c = CHR 0xA0)"

definition trim :: "string \<Rightarrow> string" where
  "trim s = rev (dropWhile is_space (rev (dropWhile is_space s)))"

text \<open>The fields of the edit form that \<^verbatim>\<open>saveItem\<close> reads, and the notices it can show.\<close>

record edit_form =
  itemKey :: string
  itemValue :: string
  cookieDomain :: string
  cookiePath :: string
  cookieExpires :: string
  cookieSecure :: bool
  cookieHttpOnly :: bool
  cookieSameSite :: string

datatype toast =
    KeyRequired
  | Added
  | Updated
  | FailedToSave
  | NoDataToImport
  | InvalidJSON
  | Imported nat

text \<open>
  \<^verbatim>\<open>x / k\<close> on a number, for a positive finite \<open>k\<close> (the code divides by 1000), and the
  object \<^verbatim>\<open>cookieData\<close> of lines 826-839.
\<close>

fun divide_number :: "number \<Rightarrow> real \<Rightarrow> number" where
  "divide_number NaN k = NaN"
| "divide_number (Num x) k = Num (x / k)"
| "divide_number PosInfinity k = PosInfinity"
| "divide_number NegInfinity k = NegInfinity"

definition cookieData :: "env \<Rightarrow> edit_form \<Rightarrow> string \<Rightarrow> string \<Rightarrow> cookie_data" where
  "cookieData e form key v =
     \<lparr> data_name = key,
       data_value = v,
       data_domain = (if cookieDomain form = [] then None else Some (cookieDomain form)),
       data_path = Some (or_string (Some (cookiePath form)) ''/''),
       data_secure = Some (cookieSecure form),
       data_httpOnly = Some (cookieHttpOnly form),
       data_sameSite = Some (cookieSameSite form),
       data_expirationDate =
         (if cookieExpires form = [] then None
          else Some (divide_number (Date_getTime e (cookieExpires form)) 1000)) \<rparr>"

definition closeModal :: "state \<Rightarrow> state" where
  "closeModal s = s\<lparr>editingItem := None\<rparr>"

text \<open>
  \<^verbatim>\<open>saveItem\<close> (lines 804-853). \<open>save_item_write\<close> is the part that chooses the adapter
  (lines 825-844).
\<close>

definition save_item_write :: "env \<Rightarrow> edit_form \<Rightarrow> string \<Rightarrow> string \<Rightarrow> state \<Rightarrow> bool \<times> state" where
  "save_item_write e form key v s =
     (case currentTab s of
        Cookies \<Rightarrow> setCookie e (cookieData e form key v) s
      | Storage type \<Rightarrow> setWebStorageItem e type key v s)"

definition saveItem :: "env \<Rightarrow> edit_form \<Rightarrow> state \<Rightarrow> toast \<times> state" where
  "saveItem e form s =
     (let key = trim (itemKey form) in
      if key = [] then (KeyRequired, s)
      else
        (case save_item_write e form key (minify e (itemValue form)) s of
           (success, s1) \<Rightarrow>
             if success then
               let s2 = closeModal s1
               in (if editingItem s2 \<noteq> None then Updated else Added, s2)
             else (FailedToSave, s1)))"

subsection \<open>Bulk import\<close>

text \<open>
  The loops of \<^verbatim>\<open>confirmImport\<close> (lines 1004-1041). Each iteration awaits one adapter
  call and drops the boolean it returns; the writing loops add one to \<^verbatim>\<open>count\<close> after
  every call.
\<close>

fun remove_storage_items :: "env \<Rightarrow> storage_kind \<Rightarrow> string list \<Rightarrow> state \<Rightarrow> state" where
  "remove_storage_items e type [] s = s"
| "remove_storage_items e type (key # keys) s =
     remove_storage_items e type keys (snd (removeWebStorageItem e type key s))"

fun set_storage_items ::
  "env \<Rightarrow> storage_kind \<Rightarrow> (string \<times> string) list \<Rightarrow> nat \<times> state \<Rightarrow> nat \<times> state" where
  "set_storage_items e type [] (count, s) = (count, s)"
| "set_storage_items e type ((key, v) # entries) (count, s) =
     set_storage_items e type entries (count + 1, snd (setWebStorageItem e type key v s))"

fun remove_cookies :: "env \<Rightarrow> cookie list \<Rightarrow> state \<Rightarrow> state" where
  "remove_cookies e [] s = s"
| "remove_cookies e (c # cs) s = remove_cookies e cs (snd (removeCookie e (cookie_name c) s))"

fun set_cookies :: "env \<Rightarrow> cookie_data list \<Rightarrow> nat \<times> state \<Rightarrow> nat \<times> state" where
  "set_cookies e [] (count, s) = (count, s)"
| "set_cookies e (d # ds) (count, s) = set_cookies e ds (count + 1, snd (setCookie e d s))"

text \<open>
  One \<^verbatim>\<open>if (importData.<kind>)\<close> block: a missing field is skipped; an object or an
  array, empty or not, is truthy. Without \<^verbatim>\<open>merge\<close> the keys (or cookies) of the mirror,
  as they are when the block starts, are removed first.
\<close>

definition import_storage ::
  "env \<Rightarrow> bool \<Rightarrow> storage_kind \<Rightarrow> js_object option \<Rightarrow> nat \<times> state \<Rightarrow> nat \<times> state" where
  "import_storage e merge type field cs =
     (case field of
        None \<Rightarrow> cs
      | Some entries \<Rightarrow>
          (case cs of
             (count, s) \<Rightarrow>
               set_storage_items e type entries
                 (count,
                  if merge then s
                  else remove_storage_items e type (Object_keys (data_storage s type)) s)))"

definition import_cookie_list ::
  "env \<Rightarrow> bool \<Rightarrow> cookie_data list option \<Rightarrow> nat \<times> state \<Rightarrow> nat \<times> state" where
  "import_cookie_list e merge field cs =
     (case field of
        None \<Rightarrow> cs
      | Some ds \<Rightarrow>
          (case cs of
             (count, s) \<Rightarrow>
               set_cookies e ds (count, if merge then s else remove_cookies e (data_cookies s) s)))"

definition import_all :: "env \<Rightarrow> bool \<Rightarrow> import_payload \<Rightarrow> state \<Rightarrow> nat \<times> state" where
  "import_all e merge importData s =
     import_cookie_list e merge (import_cookies importData)
       (import_storage e merge SessionStorage (import_sessionStorage importData)
          (import_storage e merge LocalStorage (import_localStorage importData) (0, s)))"

text \<open>
  \<^verbatim>\<open>confirmImport\<close> (lines 985-1046): the arguments are the text of the import field and
  the \<^verbatim>\<open>mergeImport\<close> checkbox.
\<close>

definition confirmImport :: "env \<Rightarrow> string \<Rightarrow> bool \<Rightarrow> state \<Rightarrow> toast \<times> state" where
  "confirmImport e importText merge s =
     (let text = trim importText in
      if text = [] then (NoDataToImport, s)
      else
        (case JSON_parse_import e text of
           None \<Rightarrow> (InvalidJSON, s)
         | Some importData \<Rightarrow>
             (case import_all e merge importData s of
                (count, s1) \<Rightarrow> (Imported count, loadAllData e (closeModal s1)))))"

section \<open>Persisted view state\<close>

text \<open>
  \<^verbatim>\<open>saveState\<close> (lines 64-78) and \<^verbatim>\<open>restoreState\<close> (lines 80-113). \<open>view\<close> holds what
  the two methods read and write: \<^verbatim>\<open>this.currentTab\<close> and \<^verbatim>\<open>this.searchQuery\<close>, which
  are strings here, and the \<^verbatim>\<open>data-theme\<close> attribute of the document (\<open>None\<close> when
  the attribute is not set). \<open>snapshot\<close> is the stored object \<^verbatim>\<open>inspectorState\<close>; its
  fields \<^verbatim>\<open>currentTabId\<close> and \<^verbatim>\<open>currentUrl\<close> are never read back and are left out.
  Times are milliseconds since the epoch, as \<^verbatim>\<open>Date.now()\<close> returns them.
\<close>

record view =
  view_currentTab :: string
  view_searchQuery :: string
  view_theme :: "string option"

record snapshot =
  saved_currentTab :: string
  saved_searchQuery :: string
  saved_theme :: "string option"
  lastSaved :: int

datatype 'a settled = Rejected | Fulfilled 'a

definition saveState :: "int \<Rightarrow> view \<Rightarrow> snapshot" where
  "saveState now v =
     \<lparr> saved_currentTab = view_currentTab v,
       saved_searchQuery = view_searchQuery v,
       saved_theme = view_theme v,
       lastSaved = now \<rparr>"

text \<open>
  The two nested conditions of \<^verbatim>\<open>restoreState\<close>: the snapshot exists with a truthy
  \<^verbatim>\<open>lastSaved\<close>, and \<^verbatim>\<open>state.lastSaved > hourAgo\<close>. A rejected read goes to
  \<^verbatim>\<open>catch\<close> and nothing is applied.
\<close>

definition restorable :: "int \<Rightarrow> snapshot option settled \<Rightarrow> bool" where
  "restorable now r =
     (case r of
        Rejected \<Rightarrow> False
      | Fulfilled None \<Rightarrow> False
      | Fulfilled (Some st) \<Rightarrow>
          if lastSaved st \<noteq> 0 then
            (let hourAgo = now - 60 * 60 * 1000 in lastSaved st > hourAgo)
          else False)"

definition apply_snapshot :: "snapshot \<Rightarrow> view \<Rightarrow> view" where
  "apply_snapshot st v =
     (let v1 = v\<lparr>view_currentTab := or_string (Some (saved_currentTab st)) ''localStorage'',
                 view_searchQuery := or_string (Some (saved_searchQuery st)) []\<rparr>
      in case saved_theme st of
           None \<Rightarrow> v1
         | Some t \<Rightarrow> if t = [] then v1 else v1\<lparr>view_theme := Some t\<rparr>)"

definition restoreState :: "int \<Rightarrow> snapshot option settled \<Rightarrow> view \<Rightarrow> view" where
  "restoreState now r v =
     (if restorable now r then
        (case r of Fulfilled (Some st) \<Rightarrow> apply_snapshot st v | _ \<Rightarrow> v)
      else v)"

section \<open>Reading a trace\<close>

text \<open>
  The requests that change a store, the requests that write an entry, and the value
  that a writing request carries. \<open>applied\<close> counts the writes that were fulfilled.
\<close>

fun mutation :: "call \<Rightarrow> bool" where
  "mutation (SetItem t k v) = True"
| "mutation (RemoveItem t k) = True"
| "mutation (CookiesSet c) = True"
| "mutation (CookiesRemove u n) = True"
| "mutation (ReadItems t) = False"
| "mutation (CookiesGetAll u) = False"

fun is_write :: "call \<Rightarrow> bool" where
  "is_write (SetItem t k v) = True"
| "is_write (CookiesSet c) = True"
| "is_write (RemoveItem t k) = False"
| "is_write (CookiesRemove u n) = False"
| "is_write (ReadItems t) = False"
| "is_write (CookiesGetAll u) = False"

fun written_value :: "call \<Rightarrow> string option" where
  "written_value (SetItem t k v) = Some v"
| "written_value (CookiesSet c) = Some (set_value c)"
| "written_value (RemoveItem t k) = None"
| "written_value (CookiesRemove u n) = None"
| "written_value (ReadItems t) = None"
| "written_value (CookiesGetAll u) = None"

definition mutations :: "state \<Rightarrow> call list" where
  "mutations s = filter mutation (map fst (trace s))"

definition writes :: "state \<Rightarrow> call list" where
  "writes s = filter is_write (map fst (trace s))"

fun applied_write :: "call \<times> bool \<Rightarrow> bool" where
  "applied_write (c, ok) = (is_write c \<and> ok)"

definition applied :: "state \<Rightarrow> nat" where
  "applied s = length (filter applied_write (trace s))"

text \<open>The first request sent after the state \<open>s\<close>, on the way to \<open>s'\<close>, and its value.\<close>

definition sent :: "state \<Rightarrow> state \<Rightarrow> call list" where
  "sent s s' = drop (length (trace s)) (map fst (trace s'))"

definition sent_value :: "state \<Rightarrow> state \<Rightarrow> string option" where
  "sent_value s s' = (case sent s s' of [] \<Rightarrow> None | c # cs \<Rightarrow> written_value c)"

text \<open>
  The claims speak of a value that parses to an object or an array, of a scalar value,
  of a domain with one leading dot stripped, and of the entries an import attempts.
\<close>

fun structured :: "json \<Rightarrow> bool" where
  "structured (JArray xs) = True"
| "structured (JObject kvs) = True"
| "structured JNull = False"
| "structured (JBool b) = False"
| "structured (JNumber n) = False"
| "structured (JString s) = False"

fun strip_dot :: "string \<Rightarrow> string" where
  "strip_dot [] = []"
| "strip_dot (c # cs) = (if c = CHR ''.'' then cs else c # cs)"

definition field_size :: "'a list option \<Rightarrow> nat" where
  "field_size field = (case field of None \<Rightarrow> 0 | Some xs \<Rightarrow> length xs)"

definition attempted :: "import_payload \<Rightarrow> nat" where
  "attempted importData =
     field_size (import_localStorage importData)
     + field_size (import_sessionStorage importData)
     + field_size (import_cookies importData)"

text \<open>
  The mutating requests that one block of an import is expected to send: the removals
  for the mirrored entries unless merging, then the writes for the entries of the field.
\<close>

definition storage_block :: "bool \<Rightarrow> storage_kind \<Rightarrow> js_object option \<Rightarrow> state \<Rightarrow> call list" where
  "storage_block merge type field s =
     (case field of
        None \<Rightarrow> []
      | Some entries \<Rightarrow>
          (if merge then [] else map (RemoveItem type) (Object_keys (data_storage s type)))
          @ map (\<lambda>(key, v). SetItem type key v) entries)"

definition cookie_block :: "bool \<Rightarrow> cookie_data list option \<Rightarrow> state \<Rightarrow> call list" where
  "cookie_block merge field s =
     (case field of
        None \<Rightarrow> []
      | Some ds \<Rightarrow>
          (if merge then []
           else map (\<lambda>c. CookiesRemove (origin (currentUrl s)) (cookie_name c)) (data_cookies s))
          @ map (\<lambda>d. CookiesSet (cookie_request (currentUrl s) d)) ds)"

section \<open>An example platform\<close>

text \<open>
  A small platform on which the definitions can be run: no request is rejected, the
  cookie store keeps nothing, and \<^verbatim>\<open>JSON.parse\<close> and \<^verbatim>\<open>JSON.stringify\<close> are given for
  the fragment of JSON with \<^verbatim>\<open>null\<close>, \<^verbatim>\<open>true\<close>, \<^verbatim>\<open>false\<close>, natural numbers with an
  optional exponent, strings without escapes, arrays and objects. It instantiates the
  parameter \<open>env\<close> in the examples; no general result below depends on it.
\<close>

text \<open>
  A number is read as digits with an optional exponent \<^verbatim>\<open>e\<close> and digits. The doubles
  end below \<open>2^1024\<close>: a numeral at or above \<open>2^1024 - 2^970\<close>, half a step above the
  largest double, is read as \<^verbatim>\<open>Infinity\<close>. The members of an object are created from
  left to right.
\<close>

definition read_number :: "string \<Rightarrow> (number \<times> string) option" where
  "read_number s =
     (let ds = takeWhile is_digit s; r = dropWhile is_digit s in
      if ds = [] \<or> (length ds > 1 \<and> hd ds = CHR ''0'') then None
      else
        (case r of
           [] \<Rightarrow> Some (Num (real (number_of_digits ds)), r)
         | c # cs \<Rightarrow>
             if c = CHR ''e'' \<or> c = CHR ''E'' then
               (let es = takeWhile is_digit cs in
                if es = [] then None
                else
                  (let n = number_of_digits ds * 10 ^ number_of_digits es in
                   Some (if 2 ^ 1024 - 2 ^ 970 \<le> n then PosInfinity else Num (real n),
                         dropWhile is_digit cs)))
             else Some (Num (real (number_of_digits ds)), r)))"

definition object_of :: "(string \<times> 'a) list \<Rightarrow> (string \<times> 'a) list" where
  "object_of members = foldl (\<lambda>obj (k, x). define_property k x obj) [] members"

fun take_string :: "string \<Rightarrow> (string \<times> string) option" where
  "take_string [] = None"
| "take_string (c # cs) =
     (if c = CHR 0x22 then Some ([], cs)
      else if c = CHR 0x5C then None
      else (case take_string cs of None \<Rightarrow> None | Some (str, r) \<Rightarrow> Some (c # str, r)))"

text \<open>
  Recursive descent; the first argument bounds the depth of the recursion, and
  \<open>example_parse\<close> starts it above the length of the text, which no descent exceeds.
\<close>

fun parse_value :: "nat \<Rightarrow> string \<Rightarrow> (json \<times> string) option"
  and parse_elements :: "nat \<Rightarrow> string \<Rightarrow> (json list \<times> string) option"
  and parse_members :: "nat \<Rightarrow> string \<Rightarrow> ((string \<times> json) list \<times> string) option"
where
  "parse_value 0 s = None"
| "parse_value (Suc n) s =
     (case dropWhile is_space s of
        [] \<Rightarrow> None
      | c # cs \<Rightarrow>
          if c = CHR ''['' then
            (case dropWhile is_space cs of
               [] \<Rightarrow> None
             | c' # r \<Rightarrow>
                 if c' = CHR '']'' then Some (JArray [], r)
                 else
                   (case parse_elements n cs of
                      None \<Rightarrow> None
                    | Some (xs, r') \<Rightarrow> Some (JArray xs, r')))
          else if c = CHR ''{'' then
            (case dropWhile is_space cs of
               [] \<Rightarrow> None
             | c' # r \<Rightarrow>
                 if c' = CHR ''}'' then Some (JObject [], r)
                 else
                   (case parse_members n cs of
                      None \<Rightarrow> None
                    | Some (kvs, r') \<Rightarrow> Some (JObject (object_of kvs), r')))
          else if c = CHR 0x22 then
            (case take_string cs of None \<Rightarrow> None | Some (str, r) \<Rightarrow> Some (JString str, r))
          else if take 4 (c # cs) = ''null'' then Some (JNull, drop 4 (c # cs))
          else if take 4 (c # cs) = ''true'' then Some (JBool True, drop 4 (c # cs))
          else if take 5 (c # cs) = ''false'' then Some (JBool False, drop 5 (c # cs))
          else
            (case read_number (c # cs) of None \<Rightarrow> None | Some (x, r) \<Rightarrow> Some (JNumber x, r)))"
| "parse_elements 0 s = None"
| "parse_elements (Suc n) s =
     (case parse_value n s of
        None \<Rightarrow> None
      | Some (x, r) \<Rightarrow>
          (case dropWhile is_space r of
             [] \<Rightarrow> None
           | c # cs \<Rightarrow>
               if c = CHR '']'' then Some ([x], cs)
               else if c = CHR '','' then
                 (case parse_elements n cs of
                    None \<Rightarrow> None
                  | Some (xs, r') \<Rightarrow> Some (x # xs, r'))
               else None))"
| "parse_members 0 s = None"
| "parse_members (Suc n) s =
     (case dropWhile is_space s of
        [] \<Rightarrow> None
      | q # s1 \<Rightarrow>
          if q \<noteq> CHR 0x22 then None
          else
            (case take_string s1 of
               None \<Rightarrow> None
             | Some (k, s2) \<Rightarrow>
                 (case dropWhile is_space s2 of
                    [] \<Rightarrow> None
                  | colon # s3 \<Rightarrow>
                      if colon \<noteq> CHR '':'' then None
                      else
                        (case parse_value n s3 of
                           None \<Rightarrow> None
                         | Some (x, r) \<Rightarrow>
                             (case dropWhile is_space r of
                                [] \<Rightarrow> None
                              | c # cs \<Rightarrow>
                                  if c = CHR ''}'' then Some ([(k, x)], cs)
                                  else if c = CHR '','' then
                                    (case parse_members n cs of
                                       None \<Rightarrow> None
                                     | Some (kvs, r') \<Rightarrow> Some ((k, x) # kvs, r'))
                                  else None)))))"

definition example_parse :: "string \<Rightarrow> json option" where
  "example_parse s =
     (case parse_value (Suc (length s)) s of
        None \<Rightarrow> None
      | Some (x, r) \<Rightarrow> if dropWhile is_space r = [] then Some x else None)"

text \<open>
  The printer: no white space between tokens, and \<^verbatim>\<open>null\<close> for a number that is
  not finite, as \<^verbatim>\<open>JSON.stringify\<close> prints it.
\<close>

fun show_nat :: "nat \<Rightarrow> string" where
  "show_nat n =
     (if n < 10 then [char_of (48 + n)] else show_nat (n div 10) @ [char_of (48 + n mod 10)])"

fun show_number :: "number \<Rightarrow> string" where
  "show_number NaN = ''null''"
| "show_number (Num x) = show_nat (nat \<lfloor>x\<rfloor>)"
| "show_number PosInfinity = ''null''"
| "show_number NegInfinity = ''null''"

definition quoted :: "string \<Rightarrow> string" where
  "quoted s = [CHR 0x22] @ s @ [CHR 0x22]"

fun commas :: "string list \<Rightarrow> string" where
  "commas [] = []"
| "commas [x] = x"
| "commas (x # y # ys) = x @ '','' @ commas (y # ys)"

fun example_stringify :: "json \<Rightarrow> string" where
  "example_stringify JNull = ''null''"
| "example_stringify (JBool b) = (if b then ''true'' else ''false'')"
| "example_stringify (JNumber n) = show_number n"
| "example_stringify (JString s) = quoted s"
| "example_stringify (JArray xs) = ''['' @ commas (map example_stringify xs) @ '']''"
| "example_stringify (JObject kvs) =
     ''{'' @ commas (map (\<lambda>(k, x). quoted k @ '':'' @ example_stringify x) kvs) @ ''}''"

text \<open>An import file read at its documented type: members with string values are kept.\<close>

fun string_entries :: "(string \<times> json) list \<Rightarrow> js_object" where
  "string_entries [] = []"
| "string_entries ((k, JString v) # kvs) = (k, v) # string_entries kvs"
| "string_entries ((k, x) # kvs) = string_entries kvs"

fun storage_field :: "json option \<Rightarrow> js_object option" where
  "storage_field (Some (JObject kvs)) = Some (string_entries kvs)"
| "storage_field x = None"

fun example_payload :: "json \<Rightarrow> import_payload option" where
  "example_payload (JObject kvs) =
     Some \<lparr> import_localStorage = storage_field (map_of kvs ''localStorage''),
            import_sessionStorage = storage_field (map_of kvs ''sessionStorage''),
            import_cookies = None \<rparr>"
| "example_payload x = None"

definition example_parse_import :: "string \<Rightarrow> import_payload option" where
  "example_parse_import s = (case example_parse s of None \<Rightarrow> None | Some x \<Rightarrow> example_payload x)"

definition example_env :: env where
  "example_env =
     \<lparr> rejects = (\<lambda>n. False),
       cookies_getAll = (\<lambda>url j. j),
       cookies_set = (\<lambda>c j. j),
       cookies_remove = (\<lambda>url name j. j),
       JSON_parse = example_parse,
       JSON_stringify = example_stringify,
       JSON_parse_import = example_parse_import,
       Date_getTime = (\<lambda>s. NaN) \<rparr>"

text \<open>The same platform with every request rejected, and with the \<open>k\<close>-th one rejected.\<close>

definition failing_env :: env where
  "failing_env = example_env\<lparr>rejects := (\<lambda>n. True)\<rparr>"

definition env_rejecting :: "nat \<Rightarrow> env" where
  "env_rejecting k = example_env\<lparr>rejects := (\<lambda>n. n = k)\<rparr>"

text \<open>A page on \<^verbatim>\<open>https://example.com\<close> and an inspector that has loaded nothing yet.\<close>

definition example_url :: location where
  "example_url =
     \<lparr> origin = ''https://example.com'', hostname = ''example.com'', protocol = ''https:'' \<rparr>"

definition example_state :: "js_object \<Rightarrow> state" where
  "example_state stored =
     \<lparr> currentTab = Storage LocalStorage,
       currentUrl = example_url,
       data_storage = (\<lambda>t. []),
       data_cookies = [],
       editingItem = None,
       page = (\<lambda>t. if t = LocalStorage then stored else []),
       jar = [],
       trace = [] \<rparr>"

text \<open>Inputs for the examples: cookies, forms, import files and states.\<close>

definition empty_domain_cookie :: cookie_data where
  "empty_domain_cookie =
     \<lparr> data_name = ''sid'', data_value = ''1'', data_domain = Some [],
       data_path = None, data_secure = None, data_httpOnly = None,
       data_sameSite = None, data_expirationDate = None \<rparr>"

definition dotted_cookie :: cookie_data where
  "dotted_cookie =
     \<lparr> data_name = ''sid'', data_value = ''1'', data_domain = Some ''.example.com'',
       data_path = Some ''/'', data_secure = None, data_httpOnly = None,
       data_sameSite = None, data_expirationDate = None \<rparr>"

definition epoch_cookie :: cookie_data where
  "epoch_cookie =
     \<lparr> data_name = ''sid'', data_value = ''1'', data_domain = None,
       data_path = None, data_secure = None, data_httpOnly = None,
       data_sameSite = None, data_expirationDate = Some (Num 0) \<rparr>"

definition shop_url :: location where
  "shop_url =
     \<lparr> origin = ''https://shop.example.com'', hostname = ''shop.example.com'',
       protocol = ''https:'' \<rparr>"

definition example_form :: edit_form where
  "example_form =
     \<lparr> itemKey = '' sid '', itemValue = ''[ true , [ ] ]'', cookieDomain = ''.example.com'',
       cookiePath = [], cookieExpires = [], cookieSecure = True, cookieHttpOnly = False,
       cookieSameSite = [] \<rparr>"

definition form_with :: "string \<Rightarrow> edit_form" where
  "form_with v = example_form\<lparr>itemValue := v\<rparr>"

definition two_stores :: state where
  "two_stores =
     (example_state [(''a'', ''1'')])
       \<lparr>page := (\<lambda>t. if t = LocalStorage then [(''a'', ''1'')] else [(''t'', ''9'')])\<rparr>"

definition proto_stores :: state where
  "proto_stores =
     (example_state [])
       \<lparr>page := (\<lambda>t. if t = LocalStorage then [(''__proto__'', ''x''), (''a'', ''1'')]
                      else [(''t'', ''9'')])\<rparr>"

definition loaded_state :: state where
  "loaded_state = loadAllData example_env (example_state [(''a'', ''1'')])"

definition example_import_text :: string where
  "example_import_text =
     '' {'' @ quoted ''localStorage'' @ '': {'' @ quoted ''b'' @ '':'' @ quoted ''2'' @ ''}} ''"

definition two_item_text :: string where
  "two_item_text =
     ''{'' @ quoted ''localStorage'' @ '':{'' @ quoted ''b'' @ '':'' @ quoted ''2'' @ '',''
       @ quoted ''c'' @ '':'' @ quoted ''3'' @ ''}}''"

definition b2_payload :: import_payload where
  "b2_payload =
     \<lparr> import_localStorage = Some [(''b'', ''2'')], import_sessionStorage = None,
       import_cookies = None \<rparr>"

definition bc_payload :: import_payload where
  "bc_payload =
     \<lparr> import_localStorage = Some [(''b'', ''2''), (''c'', ''3'')],
       import_sessionStorage = None, import_cookies = None \<rparr>"

definition dark_view :: view where
  "dark_view =
     \<lparr> view_currentTab = ''localStorage'', view_searchQuery = [], view_theme = Some ''dark'' \<rparr>"

definition light_view :: view where
  "light_view =
     \<lparr> view_currentTab = ''cookies'', view_searchQuery = ''token'', view_theme = Some ''light'' \<rparr>"

text \<open>
  What an operation on one kind of key-value store leaves alone: the URL, the cookies of
  the mirror and the collection of the other kind.
\<close>

definition storage_frame :: "storage_kind \<Rightarrow> state \<Rightarrow> state \<Rightarrow> bool" where
  "storage_frame type s s' =
     (currentUrl s' = currentUrl s \<and> data_cookies s' = data_cookies s
      \<and> (\<forall>t. t \<noteq> type \<longrightarrow> data_storage s' t = data_storage s t))"

text \<open>
  The field of an import for a kind of key-value store, and the store that an import
  is expected to leave when every request is fulfilled: the entries of the field laid
  over the stored ones, from which replace mode first takes away the keys of the mirror.
\<close>

definition import_field :: "storage_kind \<Rightarrow> import_payload \<Rightarrow> js_object option" where
  "import_field type importData =
     (case type of
        LocalStorage \<Rightarrow> import_localStorage importData
      | SessionStorage \<Rightarrow> import_sessionStorage importData)"

definition imported_store ::
  "bool \<Rightarrow> js_object option \<Rightarrow> js_object \<Rightarrow> js_object \<Rightarrow> (string \<rightharpoonup> string)" where
  "imported_store merge field mirror stored =
     (case field of
        None \<Rightarrow> map_of stored
      | Some entries \<Rightarrow>
          (if merge then map_of stored else map_of stored |` (- set (Object_keys mirror)))
          ++ map_of (rev entries))"

section \<open>The cookie write request\<close>

lemma normalized_domain:
  "(if startsWith_dot dm then substring1 dm else dm) = strip_dot dm"
  by (cases dm) (simp_all add: startsWith_dot_def substring1_def)

lemma set_domain_request:
  "set_domain (cookie_request url d) =
     (case data_domain d of
        None \<Rightarrow> None
      | Some dm \<Rightarrow>
          if dm = [] then None
          else if strip_dot dm = hostname url then None else Some (strip_dot dm))"
  by (simp add: cookie_request_def fix_expiration_def fix_domain_def cookie_literal_def
      normalized_domain Let_def split: option.splits)

lemma set_value_request: "set_value (cookie_request url d) = data_value d"
  by (simp add: cookie_request_def fix_expiration_def fix_domain_def cookie_literal_def Let_def
      split: option.splits)

text \<open>
  Claim C2, as stated: when the supplied domain, with one leading dot stripped, equals
  the host name of the page, the write has no domain, and for every other supplied
  domain the write carries the stripped domain. It fails for the empty string: an
  import file can supply \<^verbatim>\<open>"domain": ""\<close>, which differs from the host name
  \<^verbatim>\<open>example.com\<close>, and the test \<^verbatim>\<open>if (data.domain)\<close> leaves the domain out.
\<close>

theorem cookie_empty_domain_omitted:
  "data_domain empty_domain_cookie = Some []
   \<and> strip_dot [] \<noteq> hostname example_url
   \<and> set_domain (cookie_request example_url empty_domain_cookie) \<noteq> Some (strip_dot [])"
  by (simp add: set_domain_request empty_domain_cookie_def example_url_def)

text \<open>
  Claim C2, amended: for a supplied domain that is not empty, the write has no domain
  when the domain with one leading dot stripped equals the host name, and carries the
  stripped domain otherwise; when no domain or the empty string is supplied the write
  has no domain.
\<close>

theorem cookie_domain_normalized:
  "(data_domain d = Some dm \<and> dm \<noteq> [] \<and> strip_dot dm = hostname url
      \<longrightarrow> set_domain (cookie_request url d) = None)
   \<and> (data_domain d = Some dm \<and> dm \<noteq> [] \<and> strip_dot dm \<noteq> hostname url
      \<longrightarrow> set_domain (cookie_request url d) = Some (strip_dot dm))
   \<and> (data_domain d = None \<or> data_domain d = Some []
      \<longrightarrow> set_domain (cookie_request url d) = None)"
  by (auto simp add: set_domain_request)

theorem cookie_domain_normalized_witness:
  "set_domain (cookie_request example_url dotted_cookie) = None
   \<and> set_domain (cookie_request shop_url dotted_cookie) = Some ''example.com''
   \<and> set_domain (cookie_request example_url empty_domain_cookie) = None"
  using cookie_domain_normalized [of dotted_cookie "''.example.com''" example_url]
        cookie_domain_normalized [of dotted_cookie "''.example.com''" shop_url]
        cookie_domain_normalized [of empty_domain_cookie "[]" example_url]
  by (simp add: dotted_cookie_def empty_domain_cookie_def example_url_def shop_url_def)

text \<open>
  Claim C3: in every write request the path is \<^verbatim>\<open>/\<close> when the given path is missing or
  empty, \<^verbatim>\<open>secure\<close> and \<^verbatim>\<open>httpOnly\<close> are false when unset, and \<^verbatim>\<open>sameSite\<close> is
  \<^verbatim>\<open>lax\<close> when unset; a given attribute is passed on as it is.
\<close>

theorem cookie_defaults:
  "set_path (cookie_request url d) =
     (case data_path d of None \<Rightarrow> ''/'' | Some p \<Rightarrow> if p = [] then ''/'' else p)
   \<and> set_secure (cookie_request url d) =
     (case data_secure d of None \<Rightarrow> False | Some b \<Rightarrow> b)
   \<and> set_httpOnly (cookie_request url d) =
     (case data_httpOnly d of None \<Rightarrow> False | Some b \<Rightarrow> b)
   \<and> set_sameSite (cookie_request url d) =
     (case data_sameSite d of None \<Rightarrow> ''lax'' | Some x \<Rightarrow> if x = [] then ''lax'' else x)"
  by (simp add: cookie_request_def fix_expiration_def fix_domain_def cookie_literal_def
      or_string_def or_bool_def Let_def split: option.splits)

text \<open>
  The scenario of the specification: a cookie edited in the form with an empty path,
  \<^verbatim>\<open>httpOnly\<close> unchecked and no \<^verbatim>\<open>sameSite\<close>, and an imported cookie with no attribute.
\<close>

theorem cookie_defaults_witness:
  "set_path (cookie_request example_url (cookieData example_env example_form ''sid'' ''1'')) = ''/''
   \<and> set_secure (cookie_request example_url (cookieData example_env example_form ''sid'' ''1''))
   \<and> \<not> set_httpOnly (cookie_request example_url (cookieData example_env example_form ''sid'' ''1''))
   \<and> set_sameSite (cookie_request example_url (cookieData example_env example_form ''sid'' ''1''))
       = ''lax''
   \<and> set_path (cookie_request example_url empty_domain_cookie) = ''/''
   \<and> \<not> set_secure (cookie_request example_url empty_domain_cookie)
   \<and> \<not> set_httpOnly (cookie_request example_url empty_domain_cookie)
   \<and> set_sameSite (cookie_request example_url empty_domain_cookie) = ''lax''"
  using cookie_defaults [of example_url "cookieData example_env example_form ''sid'' ''1''"]
        cookie_defaults [of example_url empty_domain_cookie]
  by (simp add: cookieData_def example_form_def empty_domain_cookie_def or_string_def)

text \<open>
  Claim C10: the write request carries an expiration date only when the given one is a
  truthy number; a missing date, the number 0 and \<open>NaN\<close> all give a request without
  expiration date, which the cookie store reads as a session cookie.
\<close>

theorem cookie_expiration_truthy:
  "set_expirationDate (cookie_request url d) =
     (case data_expirationDate d of
        None \<Rightarrow> None
      | Some x \<Rightarrow> if truthy_number x then Some x else None)
   \<and> (data_expirationDate d = Some (Num 0) \<longrightarrow> set_expirationDate (cookie_request url d) = None)
   \<and> (data_expirationDate d = Some NaN \<longrightarrow> set_expirationDate (cookie_request url d) = None)"
  by (simp add: cookie_request_def fix_expiration_def fix_domain_def cookie_literal_def
      Let_def split: option.splits)

theorem cookie_expiration_truthy_witness:
  "data_expirationDate epoch_cookie = Some (Num 0)
   \<and> set_expirationDate (cookie_request example_url epoch_cookie) = None
   \<and> set_expirationDate
       (cookie_request example_url (epoch_cookie\<lparr>data_expirationDate := Some (Num 1893456000)\<rparr>))
     = Some (Num 1893456000)"
  using cookie_expiration_truthy [of example_url epoch_cookie]
        cookie_expiration_truthy
          [of example_url "epoch_cookie\<lparr>data_expirationDate := Some (Num 1893456000)\<rparr>"]
  by (simp add: epoch_cookie_def)

section \<open>Loading the mirror\<close>

text \<open>
  A property that is created or overwritten is the one read back; the assignment
  \<^verbatim>\<open>obj[k] = v\<close> does so for every key but \<^verbatim>\<open>__proto__\<close>.
\<close>

lemma map_of_insert_index:
  "array_index k = Some i \<Longrightarrow> map_of (insert_index i k v obj) = (map_of obj)(k \<mapsto> v)"
proof (induction obj)
  case Nil
  then show ?case by simp
next
  case (Cons entry rest)
  obtain k' v' where entry: "entry = (k', v')" by (cases entry)
  show ?case
  proof (cases "array_index k'")
    case None
    then show ?thesis by (auto simp add: entry fun_eq_iff)
  next
    case (Some j)
    show ?thesis
    proof (cases "j < i")
      case True
      then have "k' \<noteq> k" using Some Cons.prems by auto
      then show ?thesis
        using True Some Cons by (auto simp add: entry fun_eq_iff)
    next
      case False
      then show ?thesis using Some by (auto simp add: entry fun_eq_iff)
    qed
  qed
qed

lemma update_new_key: "k \<notin> fst ` set obj \<Longrightarrow> AList.update k v obj = obj @ [(k, v)]"
  by (induction obj) auto

lemma define_property_plain:
  "array_index k = None \<Longrightarrow> define_property k v obj = AList.update k v obj"
  by (simp add: define_property_def update_new_key)

lemma map_of_define_property: "map_of (define_property k v obj) = (map_of obj)(k \<mapsto> v)"
proof (cases "array_index k")
  case None
  then show ?thesis by (simp add: define_property_plain update_conv')
next
  case (Some i)
  then show ?thesis
    by (simp add: define_property_def update_conv' map_of_insert_index)
qed

lemma map_of_obj_set:
  "map_of (obj_set k v obj) = (if k = ''__proto__'' then map_of obj else (map_of obj)(k \<mapsto> v))"
  by (simp add: obj_set_def map_of_define_property)

lemma obj_set_proto: "obj_set ''__proto__'' v obj = obj"
  by (simp add: obj_set_def)

lemma obj_set_plain:
  "k \<noteq> ''__proto__'' \<Longrightarrow> array_index k = None \<Longrightarrow> obj_set k v obj = AList.update k v obj"
  by (simp add: obj_set_def define_property_plain)

text \<open>
  The injected loop returns the entries of the store it reads, but for an entry under
  the key \<^verbatim>\<open>__proto__\<close>, which the object it builds does not take.
\<close>

lemma read_step_at:
  "n < length st \<Longrightarrow> st ! n = (k, v) \<Longrightarrow> map_of st k = Some w \<Longrightarrow>
   read_step st acc n = obj_set k w acc"
  by (simp add: read_step_def storage_key_def storage_getItem_def)

lemma map_of_read_prefix:
  "n \<le> length st \<Longrightarrow>
   map_of (foldl (read_step st) [] [0..<n]) = map_of (take n st) |` (- {''__proto__''})"
proof (induction n)
  case 0
  then show ?case by simp
next
  case (Suc n)
  then have n: "n < length st" by simp
  obtain k v where kv: "st ! n = (k, v)" by (cases "st ! n")
  have tk: "take (Suc n) st = take n st @ [(k, v)]"
    using n kv by (simp add: take_Suc_conv_app_nth)
  have ih: "map_of (foldl (read_step st) [] [0..<n]) = map_of (take n st) |` (- {''__proto__''})"
    using Suc by simp
  have whole: "map_of st = map_of (take n st @ (k, v) # drop (Suc n) st)"
    using n kv by (metis id_take_nth_drop)
  have first: "map_of st k = Some (case map_of (take n st) k of None \<Rightarrow> v | Some w \<Rightarrow> w)"
    by (simp add: whole map_add_def split: option.splits)
  have "map_of (foldl (read_step st) [] [0..<Suc n]) =
        map_of (obj_set k (case map_of (take n st) k of None \<Rightarrow> v | Some w \<Rightarrow> w)
                  (foldl (read_step st) [] [0..<n]))"
    by (simp add: read_step_at [OF n kv first])
  also have "\<dots> = map_of (take (Suc n) st) |` (- {''__proto__''})"
    by (auto simp add: map_of_obj_set ih tk map_add_def restrict_map_def fun_eq_iff
        split: option.splits)
  finally show ?case .
qed

lemma map_of_read_storage: "map_of (read_storage st) = map_of st |` (- {''__proto__''})"
  using map_of_read_prefix [of "length st" st] by (simp add: read_storage_def storage_length_def)


lemma read_storage_proto: "map_of (read_storage st) ''__proto__'' = None"
  by (simp add: map_of_read_storage restrict_map_def)

lemma loadAllData_result:
  "loadAllData e s =
     s\<lparr> data_storage := (data_storage s)
          (LocalStorage := if rejects e (length (trace s)) then []
                           else read_storage (page s LocalStorage),
           SessionStorage := if rejects e (Suc (length (trace s))) then []
                             else read_storage (page s SessionStorage)),
        data_cookies := if rejects e (Suc (Suc (length (trace s)))) then []
                        else cookies_getAll e (origin (currentUrl s)) (jar s),
        trace := trace s @
          [(ReadItems LocalStorage, \<not> rejects e (length (trace s))),
           (ReadItems SessionStorage, \<not> rejects e (Suc (length (trace s)))),
           (CookiesGetAll (origin (currentUrl s)), \<not> rejects e (Suc (Suc (length (trace s)))))] \<rparr>"
  by (simp add: loadAllData_def loadCookies_def loadWebStorage_def request_def Let_def)

text \<open>
  Claim C6 says that when exactly one of the three loads of \<^verbatim>\<open>loadAllData\<close> fails, the
  collection of that store is empty in the mirror and the two others are loaded with
  their correct data. The code isolates the failure: the failed collection is empty, the
  cookies are those the cookie store returns, and \<^verbatim>\<open>loadAllData\<close>, a total function,
  returns after sending exactly its three requests. But a loaded key-value collection
  holds the entries of the page's store without the entry under the key \<^verbatim>\<open>__proto__\<close>:
  the assignment in the injected loop does not create that property, so a store with
  such an entry is not loaded correctly.
\<close>

theorem load_failure_isolated:
  "(rejects e (length (trace s)) \<and> \<not> rejects e (length (trace s) + 1)
      \<and> \<not> rejects e (length (trace s) + 2)
      \<longrightarrow> data_storage (loadAllData e s) LocalStorage = []
        \<and> map_of (data_storage (loadAllData e s) SessionStorage)
            = map_of (page s SessionStorage) |` (- {''__proto__''})
        \<and> data_cookies (loadAllData e s) = cookies_getAll e (origin (currentUrl s)) (jar s))
   \<and> (\<not> rejects e (length (trace s)) \<and> rejects e (length (trace s) + 1)
      \<and> \<not> rejects e (length (trace s) + 2)
      \<longrightarrow> map_of (data_storage (loadAllData e s) LocalStorage)
            = map_of (page s LocalStorage) |` (- {''__proto__''})
        \<and> data_storage (loadAllData e s) SessionStorage = []
        \<and> data_cookies (loadAllData e s) = cookies_getAll e (origin (currentUrl s)) (jar s))
   \<and> (\<not> rejects e (length (trace s)) \<and> \<not> rejects e (length (trace s) + 1)
      \<and> rejects e (length (trace s) + 2)
      \<longrightarrow> map_of (data_storage (loadAllData e s) LocalStorage)
            = map_of (page s LocalStorage) |` (- {''__proto__''})
        \<and> map_of (data_storage (loadAllData e s) SessionStorage)
            = map_of (page s SessionStorage) |` (- {''__proto__''})
        \<and> data_cookies (loadAllData e s) = [])
   \<and> sent s (loadAllData e s) =
        [ReadItems LocalStorage, ReadItems SessionStorage, CookiesGetAll (origin (currentUrl s))]"
  by (simp add: loadAllData_result map_of_read_storage sent_def)

text \<open>
  The failing input: the cookie load is rejected and the local storage of the page holds
  an entry under \<^verbatim>\<open>__proto__\<close>; the mirror of the local storage lacks it.
\<close>

lemmas eval_object = obj_set_def define_property_def array_index_def is_digit_def

lemmas eval_read =
  read_storage_def read_step_def storage_length_def storage_key_def storage_getItem_def

theorem load_failure_isolated_witness:
  "\<not> rejects (env_rejecting 2) (length (trace proto_stores))
   \<and> \<not> rejects (env_rejecting 2) (length (trace proto_stores) + 1)
   \<and> rejects (env_rejecting 2) (length (trace proto_stores) + 2)
   \<and> storage_getItem (page proto_stores LocalStorage) ''__proto__'' = Some ''x''
   \<and> data_storage (loadAllData (env_rejecting 2) proto_stores) LocalStorage = [(''a'', ''1'')]
   \<and> map_of (data_storage (loadAllData (env_rejecting 2) proto_stores) LocalStorage) ''__proto__''
       = None
   \<and> data_storage (loadAllData (env_rejecting 2) proto_stores) SessionStorage = [(''t'', ''9'')]
   \<and> data_cookies (loadAllData (env_rejecting 2) proto_stores) = []
   \<and> rejects (env_rejecting 0) (length (trace proto_stores))
   \<and> data_storage (loadAllData (env_rejecting 0) proto_stores) LocalStorage = []
   \<and> rejects (env_rejecting 1) (length (trace proto_stores) + 1)
   \<and> data_storage (loadAllData (env_rejecting 1) proto_stores) SessionStorage = []"
  using load_failure_isolated [of "env_rejecting 2" proto_stores]
        load_failure_isolated [of "env_rejecting 0" proto_stores]
        load_failure_isolated [of "env_rejecting 1" proto_stores]
  by (simp add: loadAllData_result env_rejecting_def example_env_def proto_stores_def
      example_state_def eval_read eval_object)

section \<open>Single-item operations on a key-value store\<close>

lemma setWebStorageItem_result:
  "setWebStorageItem e type key v s =
     (if rejects e (length (trace s)) then
        (False, s\<lparr>trace := trace s @ [(SetItem type key v, False)]\<rparr>)
      else
        (True, s\<lparr> trace := trace s @ [(SetItem type key v, True)],
                  page := (page s)(type := storage_setItem key v (page s type)),
                  data_storage :=
                    (data_storage s)(type := obj_set key v (data_storage s type)) \<rparr>))"
  by (simp add: setWebStorageItem_def request_def Let_def)

lemma removeWebStorageItem_result:
  "removeWebStorageItem e type key s =
     (if rejects e (length (trace s)) then
        (False, s\<lparr>trace := trace s @ [(RemoveItem type key, False)]\<rparr>)
      else
        (True, s\<lparr> trace := trace s @ [(RemoveItem type key, True)],
                  page := (page s)(type := storage_removeItem key (page s type)),
                  data_storage :=
                    (data_storage s)(type := obj_delete key (data_storage s type)) \<rparr>))"
  by (simp add: removeWebStorageItem_def request_def Let_def)

text \<open>
  Claim C7 says that a single-item set or remove returns a boolean, that on failure the
  mirror is unchanged and that on success the mirror reflects exactly that one upsert
  or eviction. The code returns true exactly when the request was fulfilled, leaves the
  mirror (both key-value collections and the cookies) unchanged when it returns false,
  and on a successful remove the key is gone and every other key is as before. On a
  successful set of a key other than \<^verbatim>\<open>__proto__\<close> the collection has exactly that key
  set. On a successful set of the key \<^verbatim>\<open>__proto__\<close> the page's store holds the entry
  and the mirror is unchanged: the upsert is not reflected.
\<close>

theorem storage_mutation_mirror:
  "fst (setWebStorageItem e type key v s) = (\<not> rejects e (length (trace s)))
   \<and> (\<not> fst (setWebStorageItem e type key v s) \<longrightarrow>
        data_storage (snd (setWebStorageItem e type key v s)) = data_storage s
        \<and> data_cookies (snd (setWebStorageItem e type key v s)) = data_cookies s)
   \<and> (fst (setWebStorageItem e type key v s) \<longrightarrow>
        data_storage (snd (setWebStorageItem e type key v s)) =
          (data_storage s)(type := obj_set key v (data_storage s type))
        \<and> data_cookies (snd (setWebStorageItem e type key v s)) = data_cookies s
        \<and> storage_getItem (page (snd (setWebStorageItem e type key v s)) type) key = Some v)
   \<and> (fst (setWebStorageItem e type key v s) \<and> key \<noteq> ''__proto__'' \<longrightarrow>
        map_of (data_storage (snd (setWebStorageItem e type key v s)) type) =
          (map_of (data_storage s type))(key \<mapsto> v))
   \<and> (fst (setWebStorageItem e type key v s) \<and> key = ''__proto__'' \<longrightarrow>
        data_storage (snd (setWebStorageItem e type key v s)) = data_storage s)
   \<and> fst (removeWebStorageItem e type key s) = (\<not> rejects e (length (trace s)))
   \<and> (\<not> fst (removeWebStorageItem e type key s) \<longrightarrow>
        data_storage (snd (removeWebStorageItem e type key s)) = data_storage s
        \<and> data_cookies (snd (removeWebStorageItem e type key s)) = data_cookies s)
   \<and> (fst (removeWebStorageItem e type key s) \<longrightarrow>
        data_storage (snd (removeWebStorageItem e type key s)) =
          (data_storage s)(type := obj_delete key (data_storage s type))
        \<and> map_of (data_storage (snd (removeWebStorageItem e type key s)) type) =
          (map_of (data_storage s type))(key := None)
        \<and> data_cookies (snd (removeWebStorageItem e type key s)) = data_cookies s)"
  by (auto simp add: setWebStorageItem_result removeWebStorageItem_result map_of_obj_set
      obj_set_proto obj_delete_def delete_conv' storage_getItem_def storage_setItem_def
      update_conv')

text \<open>
  The failing input: a fulfilled set of the key \<^verbatim>\<open>__proto__\<close>. Beside it, a set and a
  remove of ordinary keys, fulfilled and rejected.
\<close>

theorem storage_mutation_mirror_witness:
  "fst (setWebStorageItem example_env LocalStorage ''__proto__'' ''x'' (loadAllData example_env two_stores))
   \<and> data_storage (loadAllData example_env two_stores) LocalStorage = [(''a'', ''1'')]
   \<and> data_storage (snd (setWebStorageItem example_env LocalStorage ''__proto__'' ''x''
        (loadAllData example_env two_stores))) LocalStorage = [(''a'', ''1'')]
   \<and> storage_getItem (page (snd (setWebStorageItem example_env LocalStorage ''__proto__'' ''x''
        (loadAllData example_env two_stores))) LocalStorage) ''__proto__'' = Some ''x''
   \<and> fst (setWebStorageItem example_env LocalStorage ''b'' ''2'' (loadAllData example_env two_stores))
   \<and> data_storage (snd (setWebStorageItem example_env LocalStorage ''b'' ''2''
        (loadAllData example_env two_stores))) LocalStorage = [(''a'', ''1''), (''b'', ''2'')]
   \<and> \<not> fst (setWebStorageItem failing_env LocalStorage ''b'' ''2'' (loadAllData example_env two_stores))
   \<and> data_storage (snd (setWebStorageItem failing_env LocalStorage ''b'' ''2''
        (loadAllData example_env two_stores))) LocalStorage = [(''a'', ''1'')]
   \<and> fst (removeWebStorageItem example_env LocalStorage ''a'' (loadAllData example_env two_stores))
   \<and> data_storage (snd (removeWebStorageItem example_env LocalStorage ''a''
        (loadAllData example_env two_stores))) LocalStorage = []
   \<and> \<not> fst (removeWebStorageItem failing_env LocalStorage ''a'' (loadAllData example_env two_stores))
   \<and> data_storage (snd (removeWebStorageItem failing_env LocalStorage ''a''
        (loadAllData example_env two_stores))) LocalStorage = [(''a'', ''1'')]"
  using
    storage_mutation_mirror
      [of example_env LocalStorage "''__proto__''" "''x''" "loadAllData example_env two_stores"]
    storage_mutation_mirror
      [of example_env LocalStorage "''b''" "''2''" "loadAllData example_env two_stores"]
    storage_mutation_mirror
      [of failing_env LocalStorage "''b''" "''2''" "loadAllData example_env two_stores"]
    storage_mutation_mirror
      [of example_env LocalStorage "''a''" "''2''" "loadAllData example_env two_stores"]
    storage_mutation_mirror
      [of failing_env LocalStorage "''a''" "''2''" "loadAllData example_env two_stores"]
  by (simp add: loadAllData_result failing_env_def example_env_def two_stores_def example_state_def
      eval_read eval_object obj_delete_def)

section \<open>Saving an edited value\<close>

lemma isJson_iff: "isJson e v = (\<exists>j. JSON_parse e v = Some j \<and> structured j)"
proof (cases "JSON_parse e v")
  case None
  then show ?thesis by (simp add: isJson_def)
next
  case (Some j)
  then show ?thesis by (cases j) (simp_all add: isJson_def)
qed


lemma minify_plain:
  "JSON_parse e v = None \<or> (\<exists>j. JSON_parse e v = Some j \<and> \<not> structured j) \<Longrightarrow> minify e v = v"
  by (auto simp add: minify_def isJson_iff)

lemma setCookie_result:
  "setCookie e d s =
     (if rejects e (length (trace s)) then
        (False, s\<lparr>trace := trace s @ [(CookiesSet (cookie_request (currentUrl s) d), False)]\<rparr>)
      else
        (True, s\<lparr> trace := trace s @
                    [(CookiesSet (cookie_request (currentUrl s) d), True),
                     (CookiesGetAll (origin (currentUrl s)), \<not> rejects e (Suc (length (trace s))))],
                  jar := cookies_set e (cookie_request (currentUrl s) d) (jar s),
                  data_cookies :=
                    if rejects e (Suc (length (trace s))) then []
                    else cookies_getAll e (origin (currentUrl s))
                           (cookies_set e (cookie_request (currentUrl s) d) (jar s)) \<rparr>))"
  by (simp add: setCookie_def loadCookies_def request_def Let_def)

lemma removeCookie_result:
  "removeCookie e name s =
     (if rejects e (length (trace s)) then
        (False, s\<lparr>trace := trace s @ [(CookiesRemove (origin (currentUrl s)) name, False)]\<rparr>)
      else
        (True, s\<lparr> trace := trace s @
                    [(CookiesRemove (origin (currentUrl s)) name, True),
                     (CookiesGetAll (origin (currentUrl s)), \<not> rejects e (Suc (length (trace s))))],
                  jar := cookies_remove e (origin (currentUrl s)) name (jar s),
                  data_cookies :=
                    if rejects e (Suc (length (trace s))) then []
                    else cookies_getAll e (origin (currentUrl s))
                           (cookies_remove e (origin (currentUrl s)) name (jar s)) \<rparr>))"
  by (simp add: removeCookie_def loadCookies_def request_def Let_def)

text \<open>Whichever adapter is chosen, the first request carries the value it was given.\<close>

lemma save_item_write_sent: "sent_value s (snd (save_item_write e form key v s)) = Some v"
proof (cases "currentTab s")
  case (Storage type)
  then show ?thesis
    by (simp add: save_item_write_def setWebStorageItem_result sent_value_def sent_def)
next
  case Cookies
  then show ?thesis
    by (simp add: save_item_write_def setCookie_result sent_value_def sent_def
        set_value_request cookieData_def)
qed

lemma saveItem_sent:
  assumes "trim (itemKey form) \<noteq> []"
  shows "sent_value s (snd (saveItem e form s)) = Some (minify e (itemValue form))"
proof -
  let ?w = "save_item_write e form (trim (itemKey form)) (minify e (itemValue form)) s"
  have "trace (snd (saveItem e form s)) = trace (snd ?w)"
    using assms by (simp add: saveItem_def Let_def closeModal_def split: prod.splits)
  then have "sent_value s (snd (saveItem e form s)) = sent_value s (snd ?w)"
    by (simp add: sent_value_def sent_def)
  then show ?thesis by (simp add: save_item_write_sent)
qed




lemma trim_example_key: "trim (itemKey example_form) = ''sid''"
  by (simp add: example_form_def trim_def is_space_def)








text \<open>
  Claim C9: a submitted value that parses to a scalar (a number, a boolean, \<^verbatim>\<open>null\<close>
  or a string) is not classified as JSON by \<^verbatim>\<open>isJson\<close>, is not re-serialized, and is
  sent to the adapter byte for byte.
\<close>

theorem saveItem_keeps_scalar_json:
  assumes "trim (itemKey form) \<noteq> []" and "JSON_parse e (itemValue form) = Some j"
    and "\<not> structured j"
  shows "\<not> isJson e (itemValue form)
       \<and> minify e (itemValue form) = itemValue form
       \<and> sent_value s (snd (saveItem e form s)) = Some (itemValue form)"
  using assms by (auto simp add: saveItem_sent minify_plain isJson_iff)

lemma parse_scalars:
  "JSON_parse example_env ''123'' = Some (JNumber (Num 123))"
  "JSON_parse example_env ''true'' = Some (JBool True)"
  "JSON_parse example_env ''null'' = Some JNull"
  "JSON_parse example_env (quoted ''hi'') = Some (JString ''hi'')"
proof -
  have "example_parse ''123'' = Some (JNumber (Num 123))"
    by (simp add: example_parse_def read_number_def is_space_def is_digit_def
        number_of_digits_def digit_value_def)
  then show "JSON_parse example_env ''123'' = Some (JNumber (Num 123))"
    by (simp add: example_env_def)
  have "example_parse ''true'' = Some (JBool True)" by code_simp
  then show "JSON_parse example_env ''true'' = Some (JBool True)"
    by (simp add: example_env_def)
  have "example_parse ''null'' = Some JNull" by code_simp
  then show "JSON_parse example_env ''null'' = Some JNull"
    by (simp add: example_env_def)
  have "example_parse (quoted ''hi'') = Some (JString ''hi'')" by code_simp
  then show "JSON_parse example_env (quoted ''hi'') = Some (JString ''hi'')"
    by (simp add: example_env_def)
qed

theorem saveItem_keeps_scalar_json_witness:
  "sent_value (example_state []) (snd (saveItem example_env (form_with ''123'') (example_state [])))
     = Some ''123''
   \<and> sent_value (example_state []) (snd (saveItem example_env (form_with ''true'') (example_state [])))
     = Some ''true''
   \<and> sent_value (example_state []) (snd (saveItem example_env (form_with ''null'') (example_state [])))
     = Some ''null''
   \<and> sent_value (example_state [])
       (snd (saveItem example_env (form_with (quoted ''hi'')) (example_state [])))
     = Some (quoted ''hi'')
   \<and> \<not> isJson example_env ''123'' \<and> \<not> isJson example_env ''true''
   \<and> \<not> isJson example_env ''null'' \<and> \<not> isJson example_env (quoted ''hi'')"
proof -
  have k: "trim (itemKey (form_with v)) \<noteq> []" for v
    by (simp add: trim_example_key form_with_def)
  have v: "itemValue (form_with v) = v" for v
    by (simp add: form_with_def)
  show ?thesis
    using
      saveItem_keeps_scalar_json
        [OF k, of example_env "''123''" "JNumber (Num 123)" "example_state []"]
      saveItem_keeps_scalar_json
        [OF k, of example_env "''true''" "JBool True" "example_state []"]
      saveItem_keeps_scalar_json
        [OF k, of example_env "''null''" "JNull" "example_state []"]
      saveItem_keeps_scalar_json
        [OF k, of example_env "quoted ''hi''" "JString ''hi''" "example_state []"]
    by (simp add: v parse_scalars)
qed

section \<open>Bulk import\<close>

lemma storage_frame_refl: "storage_frame type s s"
  by (simp add: storage_frame_def)

lemma storage_frame_trans:
  "storage_frame type s s1 \<Longrightarrow> storage_frame type s1 s2 \<Longrightarrow> storage_frame type s s2"
  by (simp add: storage_frame_def)

lemma setWebStorageItem_frame: "storage_frame type s (snd (setWebStorageItem e type key v s))"
  by (simp add: setWebStorageItem_result storage_frame_def)

lemma removeWebStorageItem_frame: "storage_frame type s (snd (removeWebStorageItem e type key s))"
  by (simp add: removeWebStorageItem_result storage_frame_def)

lemma setWebStorageItem_mutations:
  "mutations (snd (setWebStorageItem e type key v s)) = mutations s @ [SetItem type key v]"
  by (simp add: setWebStorageItem_result mutations_def)

lemma removeWebStorageItem_mutations:
  "mutations (snd (removeWebStorageItem e type key s)) = mutations s @ [RemoveItem type key]"
  by (simp add: removeWebStorageItem_result mutations_def)

lemma setCookie_mutations:
  "mutations (snd (setCookie e d s)) = mutations s @ [CookiesSet (cookie_request (currentUrl s) d)]"
  by (simp add: setCookie_result mutations_def)

lemma removeCookie_mutations:
  "mutations (snd (removeCookie e name s)) = mutations s @ [CookiesRemove (origin (currentUrl s)) name]"
  by (simp add: removeCookie_result mutations_def)

lemma setCookie_url: "currentUrl (snd (setCookie e d s)) = currentUrl s"
  by (simp add: setCookie_result)

lemma removeCookie_url: "currentUrl (snd (removeCookie e name s)) = currentUrl s"
  by (simp add: removeCookie_result)

lemma remove_storage_items_frame: "storage_frame type s (remove_storage_items e type keys s)"
proof (induction keys arbitrary: s)
  case Nil
  show ?case by (simp add: storage_frame_refl)
next
  case (Cons key keys)
  show ?case
    using storage_frame_trans [OF removeWebStorageItem_frame Cons.IH] by simp
qed

lemma remove_storage_items_mutations:
  "mutations (remove_storage_items e type keys s) = mutations s @ map (RemoveItem type) keys"
  by (induction keys arbitrary: s) (simp_all add: removeWebStorageItem_mutations)

lemma set_storage_items_frame:
  "storage_frame type s (snd (set_storage_items e type entries (count, s)))"
proof (induction entries arbitrary: s count)
  case Nil
  show ?case by (simp add: storage_frame_refl)
next
  case (Cons entry entries)
  obtain key v where entry: "entry = (key, v)" by (cases entry)
  show ?case
    using storage_frame_trans [OF setWebStorageItem_frame Cons.IH] by (simp add: entry)
qed

lemma set_storage_items_mutations:
  "mutations (snd (set_storage_items e type entries (count, s))) =
     mutations s @ map (\<lambda>(key, v). SetItem type key v) entries"
  by (induction entries arbitrary: s count) (auto simp add: setWebStorageItem_mutations)

lemma set_storage_items_count:
  "fst (set_storage_items e type entries (count, s)) = count + length entries"
  by (induction entries arbitrary: s count) auto

lemma remove_cookies_url: "currentUrl (remove_cookies e cs s) = currentUrl s"
  by (induction cs arbitrary: s) (simp_all add: removeCookie_url)

lemma remove_cookies_mutations:
  "mutations (remove_cookies e cs s) =
     mutations s @ map (\<lambda>c. CookiesRemove (origin (currentUrl s)) (cookie_name c)) cs"
  by (induction cs arbitrary: s) (simp_all add: removeCookie_mutations removeCookie_url)

lemma set_cookies_mutations:
  "mutations (snd (set_cookies e ds (count, s))) =
     mutations s @ map (\<lambda>d. CookiesSet (cookie_request (currentUrl s) d)) ds"
  by (induction ds arbitrary: s count) (simp_all add: setCookie_mutations setCookie_url)

lemma set_cookies_count: "fst (set_cookies e ds (count, s)) = count + length ds"
  by (induction ds arbitrary: s count) auto

lemma import_storage_frame:
  "storage_frame type s (snd (import_storage e merge type field (count, s)))"
proof (cases field)
  case None
  then show ?thesis by (simp add: import_storage_def storage_frame_refl)
next
  case (Some entries)
  show ?thesis
  proof (cases merge)
    case True
    then show ?thesis using Some set_storage_items_frame by (simp add: import_storage_def)
  next
    case False
    then show ?thesis
      using Some storage_frame_trans [OF remove_storage_items_frame set_storage_items_frame]
      by (simp add: import_storage_def)
  qed
qed

lemma import_storage_mutations:
  "mutations (snd (import_storage e merge type field (count, s))) =
     mutations s @ storage_block merge type field s"
  by (cases field)
     (simp_all add: import_storage_def storage_block_def set_storage_items_mutations
       remove_storage_items_mutations)

lemma import_storage_count:
  "fst (import_storage e merge type field (count, s)) = count + field_size field"
  by (cases field) (simp_all add: import_storage_def field_size_def set_storage_items_count)

lemma import_cookie_list_mutations:
  "mutations (snd (import_cookie_list e merge field (count, s))) =
     mutations s @ cookie_block merge field s"
  by (cases field)
     (simp_all add: import_cookie_list_def cookie_block_def set_cookies_mutations
       remove_cookies_mutations remove_cookies_url)

lemma import_cookie_list_count:
  "fst (import_cookie_list e merge field (count, s)) = count + field_size field"
  by (cases field) (simp_all add: import_cookie_list_def field_size_def set_cookies_count)

lemma import_all_count: "fst (import_all e merge p s) = attempted p"
proof -
  obtain c1 s1 where 1: "import_storage e merge LocalStorage (import_localStorage p) (0, s) = (c1, s1)"
    by (cases "import_storage e merge LocalStorage (import_localStorage p) (0, s)")
  obtain c2 s2 where 2: "import_storage e merge SessionStorage (import_sessionStorage p) (c1, s1) = (c2, s2)"
    by (cases "import_storage e merge SessionStorage (import_sessionStorage p) (c1, s1)")
  have whole: "fst (import_all e merge p s) = c2 + field_size (import_cookies p)"
    by (simp add: import_all_def 1 2 import_cookie_list_count)
  have "c1 = field_size (import_localStorage p)"
    using import_storage_count [of e merge LocalStorage "import_localStorage p" 0 s] 1 by simp
  moreover have "c2 = c1 + field_size (import_sessionStorage p)"
    using import_storage_count [of e merge SessionStorage "import_sessionStorage p" c1 s1] 2 by simp
  ultimately show ?thesis
    using whole by (simp add: attempted_def)
qed

lemma import_all_mutations:
  "mutations (snd (import_all e merge p s)) =
     mutations s
     @ storage_block merge LocalStorage (import_localStorage p) s
     @ storage_block merge SessionStorage (import_sessionStorage p) s
     @ cookie_block merge (import_cookies p) s"
proof -
  obtain c1 s1 where 1: "import_storage e merge LocalStorage (import_localStorage p) (0, s) = (c1, s1)"
    by (cases "import_storage e merge LocalStorage (import_localStorage p) (0, s)")
  obtain c2 s2 where 2: "import_storage e merge SessionStorage (import_sessionStorage p) (c1, s1) = (c2, s2)"
    by (cases "import_storage e merge SessionStorage (import_sessionStorage p) (c1, s1)")
  have f1: "storage_frame LocalStorage s s1"
    using import_storage_frame [of LocalStorage s e merge "import_localStorage p" 0] 1 by simp
  have f2: "storage_frame SessionStorage s1 s2"
    using import_storage_frame [of SessionStorage s1 e merge "import_sessionStorage p" c1] 2 by simp
  have m1: "mutations s1 = mutations s @ storage_block merge LocalStorage (import_localStorage p) s"
    using import_storage_mutations [of e merge LocalStorage "import_localStorage p" 0 s] 1 by simp
  have m2: "mutations s2 = mutations s1 @ storage_block merge SessionStorage (import_sessionStorage p) s1"
    using import_storage_mutations [of e merge SessionStorage "import_sessionStorage p" c1 s1] 2 by simp
  have "data_storage s1 SessionStorage = data_storage s SessionStorage"
    using f1 by (simp add: storage_frame_def)
  then have b2: "storage_block merge SessionStorage (import_sessionStorage p) s1 =
            storage_block merge SessionStorage (import_sessionStorage p) s"
    by (simp add: storage_block_def split: option.splits)
  have b3: "cookie_block merge (import_cookies p) s2 = cookie_block merge (import_cookies p) s"
    using f1 f2 by (simp add: cookie_block_def storage_frame_def split: option.splits)
  show ?thesis
    by (simp add: import_all_def 1 2 import_cookie_list_mutations m1 m2 b2 b3)
qed

lemma mutations_loadAllData: "mutations (loadAllData e s) = mutations s"
  by (simp add: loadAllData_result mutations_def)

lemma mutations_closeModal: "mutations (closeModal s) = mutations s"
  by (simp add: closeModal_def mutations_def)

lemma confirmImport_parsed:
  assumes "trim text \<noteq> []" and "JSON_parse_import e (trim text) = Some p"
  shows "confirmImport e text merge s =
           (Imported (attempted p), loadAllData e (closeModal (snd (import_all e merge p s))))"
proof -
  obtain c s1 where run: "import_all e merge p s = (c, s1)"
    by (cases "import_all e merge p s")
  then have "c = attempted p"
    using import_all_count [of e merge p s] by simp
  then show ?thesis
    using assms run by (simp add: confirmImport_def Let_def)
qed

lemma trim_example_import_text:
  "trim example_import_text = ''{'' @ quoted ''localStorage'' @ '': {'' @ quoted ''b'' @ '':'' @ quoted ''2'' @ ''}}''"
  by (simp add: example_import_text_def trim_def is_space_def quoted_def)

lemma parse_example_import_text:
  "example_parse_import (trim example_import_text) = Some b2_payload"
  unfolding trim_example_import_text by code_simp

lemma loaded_state_eq:
  "loaded_state =
     \<lparr> currentTab = Storage LocalStorage, currentUrl = example_url,
       data_storage = (\<lambda>t. if t = LocalStorage then [(''a'', ''1'')] else []),
       data_cookies = [], editingItem = None,
       page = (\<lambda>t. if t = LocalStorage then [(''a'', ''1'')] else []),
       jar = [],
       trace = [(ReadItems LocalStorage, True), (ReadItems SessionStorage, True),
                (CookiesGetAll ''https://example.com'', True)] \<rparr>"
  by (simp add: loaded_state_def loadAllData_result example_state_def example_env_def
      example_url_def eval_read eval_object fun_eq_iff)

lemma import_example_merge:
  "data_storage (snd (confirmImport example_env example_import_text True loaded_state)) LocalStorage
     = [(''a'', ''1''), (''b'', ''2'')]"
proof -
  have p: "JSON_parse_import example_env (trim example_import_text) = Some b2_payload"
    by (simp add: example_env_def parse_example_import_text)
  have t: "trim example_import_text \<noteq> []"
    by (simp add: trim_example_import_text)
  show ?thesis
    unfolding confirmImport_parsed [OF t p]
    by (simp add: loaded_state_eq b2_payload_def import_all_def import_storage_def
        import_cookie_list_def setWebStorageItem_result closeModal_def loadAllData_result
        example_env_def storage_setItem_def eval_read eval_object)
qed

lemma import_example_replace:
  "data_storage (snd (confirmImport example_env example_import_text False loaded_state)) LocalStorage
     = [(''b'', ''2'')]"
proof -
  have p: "JSON_parse_import example_env (trim example_import_text) = Some b2_payload"
    by (simp add: example_env_def parse_example_import_text)
  have t: "trim example_import_text \<noteq> []"
    by (simp add: trim_example_import_text)
  show ?thesis
    unfolding confirmImport_parsed [OF t p]
    by (simp add: loaded_state_eq b2_payload_def import_all_def import_storage_def
        import_cookie_list_def setWebStorageItem_result removeWebStorageItem_result
        closeModal_def loadAllData_result Object_keys_def
        example_env_def storage_setItem_def storage_removeItem_def obj_delete_def eval_read
        eval_object)
qed

text \<open>The page's stores after an import in which every request is fulfilled.\<close>

lemma set_storage_items_page_other:
  "t \<noteq> type \<Longrightarrow> page (snd (set_storage_items e type entries (count, s))) t = page s t"
  by (induction entries arbitrary: s count) (auto simp add: setWebStorageItem_result)

lemma remove_storage_items_page_other:
  "t \<noteq> type \<Longrightarrow> page (remove_storage_items e type keys s) t = page s t"
  by (induction keys arbitrary: s) (auto simp add: removeWebStorageItem_result)

lemma set_cookies_page: "page (snd (set_cookies e ds (count, s))) = page s"
  by (induction ds arbitrary: s count) (auto simp add: setCookie_result)

lemma remove_cookies_page: "page (remove_cookies e cs s) = page s"
  by (induction cs arbitrary: s) (auto simp add: removeCookie_result)

lemma set_storage_items_page:
  assumes "\<forall>n. \<not> rejects e n"
  shows "map_of (page (snd (set_storage_items e type entries (count, s))) type) =
           map_of (page s type) ++ map_of (rev entries)"
  using assms
proof (induction entries arbitrary: s count)
  case Nil
  then show ?case by simp
next
  case (Cons entry entries)
  obtain key v where entry: "entry = (key, v)" by (cases entry)
  let ?s1 = "snd (setWebStorageItem e type key v s)"
  have step: "map_of (page ?s1 type) = (map_of (page s type))(key \<mapsto> v)"
    using Cons.prems by (simp add: setWebStorageItem_result storage_setItem_def update_conv')
  have "map_of (page (snd (set_storage_items e type (entry # entries) (count, s))) type) =
        map_of (page ?s1 type) ++ map_of (rev entries)"
    using Cons.IH [OF Cons.prems] by (simp add: entry)
  also have "\<dots> = map_of (page s type) ++ map_of (rev (entry # entries))"
    by (auto simp add: step entry map_add_def fun_eq_iff split: option.splits)
  finally show ?case .
qed

lemma remove_storage_items_page:
  assumes "\<forall>n. \<not> rejects e n"
  shows "map_of (page (remove_storage_items e type keys s) type) =
           map_of (page s type) |` (- set keys)"
  using assms
proof (induction keys arbitrary: s)
  case Nil
  then show ?case by simp
next
  case (Cons key keys)
  then show ?case
    by (auto simp add: removeWebStorageItem_result storage_removeItem_def delete_conv'
        restrict_map_def fun_eq_iff)
qed


lemma import_storage_page_other:
  "t \<noteq> type \<Longrightarrow> page (snd (import_storage e merge type field (count, s))) t = page s t"
  by (cases field)
     (simp_all add: import_storage_def set_storage_items_page_other remove_storage_items_page_other)

lemma import_storage_page:
  assumes "\<forall>n. \<not> rejects e n"
  shows "map_of (page (snd (import_storage e merge type field (count, s))) type) =
           imported_store merge field (data_storage s type) (page s type)"
  using assms
  by (cases field)
     (simp_all add: import_storage_def imported_store_def set_storage_items_page
       remove_storage_items_page)

lemma import_cookie_list_page: "page (snd (import_cookie_list e merge field (count, s))) = page s"
  by (cases field) (simp_all add: import_cookie_list_def set_cookies_page remove_cookies_page)

lemma import_all_page:
  assumes ok: "\<forall>n. \<not> rejects e n"
  shows "map_of (page (snd (import_all e merge p s)) type) =
           imported_store merge (import_field type p) (data_storage s type) (page s type)"
proof -
  obtain c1 s1 where 1: "import_storage e merge LocalStorage (import_localStorage p) (0, s) = (c1, s1)"
    by (cases "import_storage e merge LocalStorage (import_localStorage p) (0, s)")
  obtain c2 s2 where 2: "import_storage e merge SessionStorage (import_sessionStorage p) (c1, s1) = (c2, s2)"
    by (cases "import_storage e merge SessionStorage (import_sessionStorage p) (c1, s1)")
  have whole: "page (snd (import_all e merge p s)) = page s2"
    by (simp add: import_all_def 1 2 import_cookie_list_page)
  have f1: "storage_frame LocalStorage s s1"
    using import_storage_frame [of LocalStorage s e merge "import_localStorage p" 0] 1 by simp
  show ?thesis
  proof (cases type)
    case LocalStorage
    have "page s2 LocalStorage = page s1 LocalStorage"
      using import_storage_page_other [of LocalStorage SessionStorage e merge "import_sessionStorage p" c1 s1] 2
      by simp
    moreover have "map_of (page s1 LocalStorage) =
        imported_store merge (import_localStorage p) (data_storage s LocalStorage) (page s LocalStorage)"
      using import_storage_page [OF ok, of merge LocalStorage "import_localStorage p" 0 s] 1 by simp
    ultimately show ?thesis
      using LocalStorage by (simp add: whole import_field_def)
  next
    case SessionStorage
    have "page s1 SessionStorage = page s SessionStorage"
      using import_storage_page_other [of SessionStorage LocalStorage e merge "import_localStorage p" 0 s] 1
      by simp
    moreover have "data_storage s1 SessionStorage = data_storage s SessionStorage"
      using f1 by (simp add: storage_frame_def)
    moreover have "map_of (page s2 SessionStorage) =
        imported_store merge (import_sessionStorage p) (data_storage s1 SessionStorage) (page s1 SessionStorage)"
      using import_storage_page [OF ok, of merge SessionStorage "import_sessionStorage p" c1 s1] 2 by simp
    ultimately show ?thesis
      using SessionStorage by (simp add: whole import_field_def)
  qed
qed

lemma confirmImport_page:
  assumes ok: "\<forall>n. \<not> rejects e n"
    and "trim text \<noteq> []" and "JSON_parse_import e (trim text) = Some p"
  shows "map_of (page (snd (confirmImport e text merge s)) type) =
           imported_store merge (import_field type p) (data_storage s type) (page s type)"
  using assms
  by (simp add: confirmImport_parsed closeModal_def loadAllData_result import_all_page)

lemma imported_store_merge:
  "imported_store True (Some entries) mirror stored = map_of stored ++ map_of (rev entries)"
  by (simp add: imported_store_def)

lemma imported_store_replace:
  "fst ` set stored \<subseteq> set (Object_keys mirror) \<Longrightarrow>
   imported_store False (Some entries) mirror stored = map_of (rev entries)"
proof -
  assume sub: "fst ` set stored \<subseteq> set (Object_keys mirror)"
  have "(map_of stored |` (- set (Object_keys mirror))) k = None" for k
  proof (cases "k \<in> set (Object_keys mirror)")
    case True
    then show ?thesis by (simp add: restrict_map_def)
  next
    case False
    then have "k \<notin> fst ` set stored" using sub by blast
    then show ?thesis by (simp add: restrict_map_def map_of_eq_None_iff)
  qed
  then have "map_of stored |` (- set (Object_keys mirror)) = Map.empty"
    by (simp add: fun_eq_iff)
  then show ?thesis by (simp add: imported_store_def)
qed

lemma page_example_merge:
  "page (snd (confirmImport example_env example_import_text True loaded_state)) LocalStorage
     = [(''a'', ''1''), (''b'', ''2'')]"
proof -
  have p: "JSON_parse_import example_env (trim example_import_text) = Some b2_payload"
    by (simp add: example_env_def parse_example_import_text)
  have t: "trim example_import_text \<noteq> []"
    by (simp add: trim_example_import_text)
  show ?thesis
    unfolding confirmImport_parsed [OF t p]
    by (simp add: loaded_state_eq b2_payload_def import_all_def import_storage_def
        import_cookie_list_def setWebStorageItem_result closeModal_def loadAllData_result
        example_env_def storage_setItem_def)
qed

lemma page_example_replace:
  "page (snd (confirmImport example_env example_import_text False loaded_state)) LocalStorage
     = [(''b'', ''2'')]"
proof -
  have p: "JSON_parse_import example_env (trim example_import_text) = Some b2_payload"
    by (simp add: example_env_def parse_example_import_text)
  have t: "trim example_import_text \<noteq> []"
    by (simp add: trim_example_import_text)
  show ?thesis
    unfolding confirmImport_parsed [OF t p]
    by (simp add: loaded_state_eq b2_payload_def import_all_def import_storage_def
        import_cookie_list_def setWebStorageItem_result removeWebStorageItem_result
        closeModal_def loadAllData_result Object_keys_def
        example_env_def storage_setItem_def storage_removeItem_def)
qed

text \<open>
  Claim C4: for an import whose text parses, the requests that \<^verbatim>\<open>confirmImport\<close> sends
  to change the stores are, kind after kind (local storage, session storage, cookies)
  and only for the fields that are present: in replace mode one removal for every entry
  (or cookie) that the mirror of that kind held, all of them before the first write of
  that kind, followed by one write for every entry of the field in its order; in merge
  mode the writes alone, with no removal. When every request is fulfilled, the page's
  store of a key-value kind whose field is present holds, in merge mode, the stored
  entries overlaid with the imported ones and, in replace mode with a mirror that knew
  every stored key, the imported entries alone. On the example platform, importing
  \<^verbatim>\<open>{"localStorage":{"b":"2"}}\<close> over a store that holds \<^verbatim>\<open>{"a":"1"}\<close> leaves
  \<^verbatim>\<open>{"a":"1","b":"2"}\<close> in merge mode and \<^verbatim>\<open>{"b":"2"}\<close> in replace mode, in the
  store and in the reloaded mirror.
\<close>

theorem import_replace_then_write:
  "(trim text \<noteq> [] \<and> JSON_parse_import e (trim text) = Some p \<longrightarrow>
      mutations (snd (confirmImport e text merge s)) =
        mutations s
        @ storage_block merge LocalStorage (import_localStorage p) s
        @ storage_block merge SessionStorage (import_sessionStorage p) s
        @ cookie_block merge (import_cookies p) s)
   \<and> storage_block False type (Some entries) s =
        map (RemoveItem type) (Object_keys (data_storage s type))
        @ map (\<lambda>(key, v). SetItem type key v) entries
   \<and> storage_block True type (Some entries) s = map (\<lambda>(key, v). SetItem type key v) entries
   \<and> cookie_block False (Some ds) s =
        map (\<lambda>c. CookiesRemove (origin (currentUrl s)) (cookie_name c)) (data_cookies s)
        @ map (\<lambda>d. CookiesSet (cookie_request (currentUrl s) d)) ds
   \<and> cookie_block True (Some ds) s = map (\<lambda>d. CookiesSet (cookie_request (currentUrl s) d)) ds
   \<and> ((\<forall>n. \<not> rejects e n) \<and> trim text \<noteq> [] \<and> JSON_parse_import e (trim text) = Some p
        \<and> import_field type p = Some entries \<longrightarrow>
        (merge \<longrightarrow>
           map_of (page (snd (confirmImport e text merge s)) type) =
             map_of (page s type) ++ map_of (rev entries))
        \<and> (\<not> merge \<and> fst ` set (page s type) \<subseteq> set (Object_keys (data_storage s type)) \<longrightarrow>
           map_of (page (snd (confirmImport e text merge s)) type) = map_of (rev entries)))
   \<and> page (snd (confirmImport example_env example_import_text True loaded_state)) LocalStorage
        = [(''a'', ''1''), (''b'', ''2'')]
   \<and> page (snd (confirmImport example_env example_import_text False loaded_state)) LocalStorage
        = [(''b'', ''2'')]
   \<and> data_storage (snd (confirmImport example_env example_import_text True loaded_state)) LocalStorage
        = [(''a'', ''1''), (''b'', ''2'')]
   \<and> data_storage (snd (confirmImport example_env example_import_text False loaded_state)) LocalStorage
        = [(''b'', ''2'')]"
proof -
  have blocks: "trim text \<noteq> [] \<and> JSON_parse_import e (trim text) = Some p \<longrightarrow>
      mutations (snd (confirmImport e text merge s)) =
        mutations s
        @ storage_block merge LocalStorage (import_localStorage p) s
        @ storage_block merge SessionStorage (import_sessionStorage p) s
        @ cookie_block merge (import_cookies p) s"
    by (simp add: confirmImport_parsed mutations_loadAllData mutations_closeModal
        import_all_mutations)
  have result: "(\<forall>n. \<not> rejects e n) \<and> trim text \<noteq> [] \<and> JSON_parse_import e (trim text) = Some p
        \<and> import_field type p = Some entries \<longrightarrow>
        (merge \<longrightarrow>
           map_of (page (snd (confirmImport e text merge s)) type) =
             map_of (page s type) ++ map_of (rev entries))
        \<and> (\<not> merge \<and> fst ` set (page s type) \<subseteq> set (Object_keys (data_storage s type)) \<longrightarrow>
           map_of (page (snd (confirmImport e text merge s)) type) = map_of (rev entries))"
    by (auto simp add: confirmImport_page imported_store_merge imported_store_replace)
  show ?thesis
    using blocks result
    by (simp add: import_example_merge import_example_replace page_example_merge
        page_example_replace storage_block_def cookie_block_def)
qed

theorem import_replace_then_write_witness:
  "trim example_import_text \<noteq> []
   \<and> JSON_parse_import example_env (trim example_import_text) = Some b2_payload
   \<and> mutations (snd (confirmImport example_env example_import_text False loaded_state))
        = [RemoveItem LocalStorage ''a'', SetItem LocalStorage ''b'' ''2'']
   \<and> mutations (snd (confirmImport example_env example_import_text True loaded_state))
        = [SetItem LocalStorage ''b'' ''2'']
   \<and> (\<forall>n. \<not> rejects example_env n)
   \<and> import_field LocalStorage b2_payload = Some [(''b'', ''2'')]
   \<and> fst ` set (page loaded_state LocalStorage)
        \<subseteq> set (Object_keys (data_storage loaded_state LocalStorage))
   \<and> map_of (page (snd (confirmImport example_env example_import_text True loaded_state))
        LocalStorage) = map_of [(''a'', ''1''), (''b'', ''2'')]
   \<and> map_of (page (snd (confirmImport example_env example_import_text False loaded_state))
        LocalStorage) = map_of [(''b'', ''2'')]"
proof -
  have p: "JSON_parse_import example_env (trim example_import_text) = Some b2_payload"
    by (simp add: example_env_def parse_example_import_text)
  have t: "trim example_import_text \<noteq> []"
    by (simp add: trim_example_import_text)
  have m: "mutations loaded_state = []"
    by (simp add: loaded_state_eq mutations_def)
  have ok: "\<forall>n. \<not> rejects example_env n"
    by (simp add: example_env_def)
  have f: "import_field LocalStorage b2_payload = Some [(''b'', ''2'')]"
    by (simp add: import_field_def b2_payload_def)
  have sub: "fst ` set (page loaded_state LocalStorage)
        \<subseteq> set (Object_keys (data_storage loaded_state LocalStorage))"
    by (simp add: loaded_state_eq Object_keys_def)
  have stored: "page loaded_state LocalStorage = [(''a'', ''1'')]"
    by (simp add: loaded_state_eq)
  have over: "map_of [(''a'', ''1'')] ++ map_of (rev [(''b'', ''2'')])
        = map_of [(''a'', ''1''), (''b'', ''2'')]"
    by (auto simp add: map_add_def fun_eq_iff)
  show ?thesis
    using p t m ok f sub
      import_replace_then_write
        [of example_import_text example_env b2_payload False loaded_state LocalStorage
          "[(''b'', ''2'')]"]
      import_replace_then_write
        [of example_import_text example_env b2_payload True loaded_state LocalStorage
          "[(''b'', ''2'')]"]
    by (simp add: storage_block_def cookie_block_def b2_payload_def stored over Object_keys_def
        loaded_state_eq)
qed

lemma parse_two_item_text: "example_parse_import (trim two_item_text) = Some bc_payload"
proof -
  have "trim two_item_text = two_item_text"
    by (simp add: two_item_text_def trim_def is_space_def quoted_def)
  moreover have "example_parse_import two_item_text = Some bc_payload"
    by code_simp
  ultimately show ?thesis by simp
qed

lemma two_item_import:
  "confirmImport (env_rejecting 0) two_item_text True (example_state [(''a'', ''1'')]) =
     (Imported 2,
      \<lparr> currentTab = Storage LocalStorage, currentUrl = example_url,
        data_storage = (\<lambda>t. if t = LocalStorage then [(''a'', ''1''), (''c'', ''3'')] else []),
        data_cookies = [], editingItem = None,
        page = (\<lambda>t. if t = LocalStorage then [(''a'', ''1''), (''c'', ''3'')] else []),
        jar = [],
        trace = [(SetItem LocalStorage ''b'' ''2'', False), (SetItem LocalStorage ''c'' ''3'', True),
                 (ReadItems LocalStorage, True), (ReadItems SessionStorage, True),
                 (CookiesGetAll ''https://example.com'', True)] \<rparr>)"
proof -
  have p: "JSON_parse_import (env_rejecting 0) (trim two_item_text) = Some bc_payload"
    by (simp add: env_rejecting_def example_env_def parse_two_item_text)
  have t: "trim two_item_text \<noteq> []"
    by (simp add: two_item_text_def trim_def is_space_def quoted_def)
  show ?thesis
    unfolding confirmImport_parsed [OF t p]
    by (simp add: attempted_def field_size_def bc_payload_def import_all_def import_storage_def
        import_cookie_list_def setWebStorageItem_result closeModal_def loadAllData_result
        env_rejecting_def example_env_def example_state_def example_url_def
        storage_setItem_def eval_read eval_object fun_eq_iff)
qed

text \<open>
  Claim C5, as stated: the count that \<^verbatim>\<open>confirmImport\<close> reports is the number of items
  whose write succeeded. It fails: with two entries to import, the first write rejected
  and the second fulfilled, one write is applied and the notice says 2.
\<close>

theorem import_count_exceeds_applied:
  "fst (confirmImport (env_rejecting 0) two_item_text True (example_state [(''a'', ''1'')]))
     = Imported 2
   \<and> applied (snd (confirmImport (env_rejecting 0) two_item_text True
        (example_state [(''a'', ''1'')]))) = 1
   \<and> applied (example_state [(''a'', ''1'')]) = 0"
proof -
  have "applied (example_state [(''a'', ''1'')]) = 0"
    by (simp add: applied_def example_state_def)
  then show ?thesis
    by (simp add: two_item_import applied_def)
qed

lemma writes_mutations: "filter is_write (mutations s) = writes s"
proof -
  have "(mutation c \<and> is_write c) = is_write c" for c
    by (cases c) simp_all
  then show ?thesis by (simp add: mutations_def writes_def)
qed

lemma writes_storage_block:
  "length (filter is_write (storage_block merge type field s)) = field_size field"
proof -
  have 1: "filter is_write (map (RemoveItem type) ks) = []" for ks
    by (induction ks) simp_all
  have 2: "length (filter (is_write \<circ> (\<lambda>(key, v). SetItem type key v)) es) = length es" for es
    by (induction es) auto
  show ?thesis
    by (cases field) (simp_all add: storage_block_def field_size_def 1 2)
qed

lemma writes_cookie_block:
  "length (filter is_write (cookie_block merge field s)) = field_size field"
proof -
  have 1: "filter is_write (map (\<lambda>c. CookiesRemove u (cookie_name c)) cs) = []" for cs u
    by (induction cs) simp_all
  have 2: "length (filter (is_write \<circ> (\<lambda>d. CookiesSet (cookie_request u d))) ds) = length ds" for ds u
    by (induction ds) auto
  show ?thesis
    by (cases field) (simp_all add: cookie_block_def field_size_def 1 2)
qed

lemma import_all_writes:
  "length (writes (snd (import_all e merge p s))) = length (writes s) + attempted p"
proof -
  have "writes (snd (import_all e merge p s)) = filter is_write (mutations (snd (import_all e merge p s)))"
    by (simp add: writes_mutations)
  then show ?thesis
    by (simp add: import_all_mutations writes_mutations writes_storage_block writes_cookie_block
        attempted_def)
qed

lemma writes_loadAllData: "writes (loadAllData e s) = writes s"
  by (simp add: loadAllData_result writes_def)

lemma writes_closeModal: "writes (closeModal s) = writes s"
  by (simp add: closeModal_def writes_def)

text \<open>
  Claim C5, amended: for an import whose text parses, the count that \<^verbatim>\<open>confirmImport\<close>
  reports is the number of entries of the fields that are present, which is the number
  of write requests it sent, fulfilled or not.
\<close>

theorem import_count_is_attempted:
  "trim text \<noteq> [] \<and> JSON_parse_import e (trim text) = Some p \<longrightarrow>
     fst (confirmImport e text merge s) = Imported (attempted p)
     \<and> length (writes (snd (confirmImport e text merge s))) = length (writes s) + attempted p"
  by (simp add: confirmImport_parsed writes_loadAllData writes_closeModal import_all_writes)

theorem import_count_is_attempted_witness:
  "trim two_item_text \<noteq> []
   \<and> JSON_parse_import (env_rejecting 0) (trim two_item_text) = Some bc_payload
   \<and> attempted bc_payload = 2
   \<and> fst (confirmImport (env_rejecting 0) two_item_text True (example_state [(''a'', ''1'')]))
       = Imported 2
   \<and> length (writes (snd (confirmImport (env_rejecting 0) two_item_text True
        (example_state [(''a'', ''1'')])))) = 2"
proof -
  have p: "JSON_parse_import (env_rejecting 0) (trim two_item_text) = Some bc_payload"
    by (simp add: env_rejecting_def example_env_def parse_two_item_text)
  have t: "trim two_item_text \<noteq> []"
    by (simp add: two_item_text_def trim_def is_space_def quoted_def)
  have a: "attempted bc_payload = 2"
    by (simp add: attempted_def field_size_def bc_payload_def)
  have w: "writes (example_state [(''a'', ''1'')]) = []"
    by (simp add: writes_def example_state_def)
  show ?thesis
    using p t a w
      import_count_is_attempted
        [of two_item_text "env_rejecting 0" bc_payload True "example_state [(''a'', ''1'')]"]
    by simp
qed

section \<open>Restoring the view state\<close>

text \<open>
  Claim C8: with a clock that reads at least one hour past the epoch, \<^verbatim>\<open>restoreState\<close>
  applies the stored snapshot exactly when one exists and was saved less than one hour
  before; otherwise, and when the read fails, the view is left as it is. An applied
  snapshot with a category and a theme sets category, search text and theme to the saved
  ones. A view saved two hours before is ignored; one saved ten minutes before is
  restored exactly.
\<close>

theorem restore_within_hour:
  "(3600000 \<le> now \<longrightarrow>
      restorable now (Fulfilled x) = (\<exists>st. x = Some st \<and> now - lastSaved st < 3600000))
   \<and> \<not> restorable now Rejected
   \<and> (\<not> restorable now r \<longrightarrow> restoreState now r v = v)
   \<and> (restorable now (Fulfilled (Some st)) \<and> saved_currentTab st \<noteq> []
        \<and> saved_theme st = Some th \<and> th \<noteq> []
        \<longrightarrow> restoreState now (Fulfilled (Some st)) v =
            \<lparr> view_currentTab = saved_currentTab st, view_searchQuery = saved_searchQuery st,
              view_theme = saved_theme st \<rparr>)
   \<and> restoreState (t0 + 2 * 3600000) (Fulfilled (Some (saveState t0 v0))) v = v
   \<and> (t0 \<noteq> 0 \<and> view_currentTab v0 \<noteq> [] \<and> view_theme v0 = Some th \<and> th \<noteq> []
        \<longrightarrow> restoreState (t0 + 10 * 60000) (Fulfilled (Some (saveState t0 v0))) v = v0)"
  by (cases x; cases r)
     (auto simp add: restorable_def restoreState_def apply_snapshot_def saveState_def or_string_def
       Let_def split: option.splits)

theorem restore_within_hour_witness:
  "(3600000::int) \<le> 1700000000000
   \<and> restorable 1700000000000 (Fulfilled (Some (saveState (1700000000000 - 600000) light_view)))
   \<and> \<not> restorable 1700000000000 (Fulfilled (Some (saveState (1700000000000 - 7200000) light_view)))
   \<and> \<not> restorable 1700000000000 (Fulfilled None)
   \<and> restoreState (1699999400000 + 10 * 60000)
        (Fulfilled (Some (saveState 1699999400000 light_view))) dark_view = light_view
   \<and> restoreState (1699992800000 + 2 * 3600000)
        (Fulfilled (Some (saveState 1699992800000 light_view))) dark_view = dark_view"
  using
    restore_within_hour [where now = 1700000000000
        and x = "Some (saveState (1700000000000 - 600000) light_view)"
        and ?t0.0 = 1699999400000 and ?v0.0 = light_view and th = "''light''" and v = dark_view]
    restore_within_hour [where now = 1700000000000
        and x = "Some (saveState (1700000000000 - 7200000) light_view)"
        and ?t0.0 = 1699992800000 and ?v0.0 = light_view and v = dark_view]
    restore_within_hour [where now = 1700000000000 and x = None]
  by (simp add: saveState_def light_view_def dark_view_def)

end
